theory Spec2Isabelle
  imports Complex_Main
begin

section \<open>Python values and the operations the modules use on them\<close>

text \<open>
  The four modules (\<^verbatim>\<open>litellm_team\<close>, \<^verbatim>\<open>litellm_virtual_key\<close>, \<^verbatim>\<open>litellm_endpoint\<close>,
  \<^verbatim>\<open>litellm_model\<close>) exchange JSON documents with the LiteLLM API and treat them as
  Python values. A Python \<^verbatim>\<open>dict\<close> is an association list with distinct keys in
  insertion order, \<^verbatim>\<open>None\<close> is \<open>JNull\<close>, numbers are rationals.
\<close>

datatype json =
    JNull
  | JBool bool
  | JNum rat
  | JStr string
  | JList "json list"
  | JObj "(string \<times> json) list"

datatype pyexc = AttributeError | TypeError | KeyError | ValueError

text \<open>
  A value substituted into a message template: a status code, a text, a JSON value or the
  text of a caught exception.
\<close>

datatype fmt_arg = Status nat | Text string | Value json | Exc pyexc

text \<open>
  A run ends abnormally either through \<^verbatim>\<open>module.fail_json(msg=...)\<close>, which exits the
  process (\<open>Fail_json\<close>: the message template with \<^verbatim>\<open>{}\<close> for each substituted
  value, and the values), or through an uncaught Python exception (\<open>Raised\<close>).
\<close>

datatype error = Fail_json string "fmt_arg list" | Raised pyexc

definition bindE :: "error + 'a \<Rightarrow> ('a \<Rightarrow> error + 'b) \<Rightarrow> error + 'b" where
  "bindE x f = (case x of Inl e \<Rightarrow> Inl e | Inr a \<Rightarrow> f a)"

text \<open>Truth value of a Python object, as tested by \<^verbatim>\<open>if x:\<close>.\<close>

fun truthy :: "json \<Rightarrow> bool" where
  "truthy JNull = False"
| "truthy (JBool b) = b"
| "truthy (JNum n) = (n \<noteq> 0)"
| "truthy (JStr s) = (s \<noteq> [])"
| "truthy (JList xs) = (xs \<noteq> [])"
| "truthy (JObj kvs) = (kvs \<noteq> [])"

text \<open>Optional module parameters: \<open>None\<close> is Python's \<^verbatim>\<open>None\<close>.\<close>

definition str_truthy :: "string option \<Rightarrow> bool" where
  "str_truthy s = (case s of None \<Rightarrow> False | Some v \<Rightarrow> v \<noteq> [])"

definition opt_truthy :: "json option \<Rightarrow> bool" where
  "opt_truthy m = (case m of None \<Rightarrow> False | Some v \<Rightarrow> truthy v)"

definition list_truthy :: "string list option \<Rightarrow> bool" where
  "list_truthy m = (case m of None \<Rightarrow> False | Some xs \<Rightarrow> xs \<noteq> [])"

definition opt_str :: "string option \<Rightarrow> json" where
  "opt_str s = (case s of None \<Rightarrow> JNull | Some v \<Rightarrow> JStr v)"

definition str_list :: "string list \<Rightarrow> json" where
  "str_list xs = JList (map JStr xs)"

text \<open>
  Python's \<^verbatim>\<open>==\<close> on JSON values: \<^verbatim>\<open>True == 1\<close> and \<^verbatim>\<open>False == 0\<close>, lists compare
  elementwise, dicts compare by key set and by value under each key, whatever the order.
\<close>

fun py_eq :: "json \<Rightarrow> json \<Rightarrow> bool" where
  "py_eq JNull b = (b = JNull)"
| "py_eq (JBool x) b =
     (case b of JBool y \<Rightarrow> x = y | JNum n \<Rightarrow> n = (if x then 1 else 0) | _ \<Rightarrow> False)"
| "py_eq (JNum m) b =
     (case b of JBool y \<Rightarrow> m = (if y then 1 else 0) | JNum n \<Rightarrow> m = n | _ \<Rightarrow> False)"
| "py_eq (JStr s) b = (b = JStr s)"
| "py_eq (JList xs) b = (case b of JList ys \<Rightarrow> list_all2 py_eq xs ys | _ \<Rightarrow> False)"
| "py_eq (JObj kvs) b =
     (case b of
        JObj kws \<Rightarrow>
          list_all (\<lambda>(k, w). map_of kvs k \<noteq> None) kws \<and>
          list_all (\<lambda>(k, v). case map_of kws k of None \<Rightarrow> False | Some w \<Rightarrow> py_eq v w) kvs
      | _ \<Rightarrow> False)"

text \<open>\<^verbatim>\<open>d.get(k, default)\<close>: only a dict has the method.\<close>

fun py_get_default :: "json \<Rightarrow> string \<Rightarrow> json \<Rightarrow> error + json" where
  "py_get_default (JObj kvs) k d = Inr (case map_of kvs k of None \<Rightarrow> d | Some v \<Rightarrow> v)"
| "py_get_default _ k d = Inl (Raised AttributeError)"

definition py_get :: "json \<Rightarrow> string \<Rightarrow> error + json" where
  "py_get v k = py_get_default v k JNull"

text \<open>\<^verbatim>\<open>d[k]\<close> with a string key.\<close>

fun py_getitem :: "json \<Rightarrow> string \<Rightarrow> error + json" where
  "py_getitem (JObj kvs) k = (case map_of kvs k of None \<Rightarrow> Inl (Raised KeyError) | Some v \<Rightarrow> Inr v)"
| "py_getitem _ k = Inl (Raised TypeError)"

text \<open>\<^verbatim>\<open>d[k] = v\<close>: an existing key keeps its position, a new key goes last.\<close>

fun dict_set :: "(string \<times> json) list \<Rightarrow> string \<Rightarrow> json \<Rightarrow> (string \<times> json) list" where
  "dict_set [] k v = [(k, v)]"
| "dict_set ((k', v') # kvs) k v = (if k' = k then (k, v) # kvs else (k', v') # dict_set kvs k v)"

text \<open>The values a \<^verbatim>\<open>for\<close> loop (or \<^verbatim>\<open>set(...)\<close>) draws from an object.\<close>

fun py_iter :: "json \<Rightarrow> error + json list" where
  "py_iter (JList xs) = Inr xs"
| "py_iter (JObj kvs) = Inr (map (\<lambda>(k, v). JStr k) kvs)"
| "py_iter (JStr s) = Inr (map (\<lambda>c. JStr [c]) s)"
| "py_iter _ = Inl (Raised TypeError)"

fun hashable :: "json \<Rightarrow> bool" where
  "hashable (JList xs) = False"
| "hashable (JObj kvs) = False"
| "hashable _ = True"

text \<open>\<^verbatim>\<open>set(v)\<close>: the elements, or TypeError when \<open>v\<close> is not iterable or an element is unhashable.\<close>

definition py_set :: "json \<Rightarrow> error + json list" where
  "py_set v = bindE (py_iter v) (\<lambda>xs. if list_all hashable xs then Inr xs else Inl (Raised TypeError))"

text \<open>
  \<^verbatim>\<open>set(current) != set(models)\<close> where \<open>models\<close> is a list of strings: a string equals
  no value but the same string, so the two sets differ unless each holds the other's elements.
\<close>

definition set_differs :: "json list \<Rightarrow> string list \<Rightarrow> bool" where
  "set_differs cur ms = (\<not> (list_all (\<lambda>x. x \<in> set (map JStr ms)) cur \<and> list_all (\<lambda>m. JStr m \<in> set cur) ms))"

fun is_substring :: "string \<Rightarrow> string \<Rightarrow> bool" where
  "is_substring p [] = (p = [])"
| "is_substring p (c # cs) = (take (length p) (c # cs) = p \<or> is_substring p cs)"

text \<open>\<^verbatim>\<open>k in v\<close> for a string \<open>k\<close>.\<close>

fun py_in :: "string \<Rightarrow> json \<Rightarrow> error + bool" where
  "py_in k (JObj kvs) = Inr (map_of kvs k \<noteq> None)"
| "py_in k (JList xs) = Inr (JStr k \<in> set xs)"
| "py_in k (JStr s) = Inr (is_substring k s)"
| "py_in k _ = Inl (Raised TypeError)"

section \<open>The remote API\<close>

datatype http_method = GET | POST | PUT | DELETE

text \<open>A request: method, path below \<^verbatim>\<open>api_url\<close>, and the JSON body when one is sent.\<close>

datatype request = Request http_method string "json option"

text \<open>
  A response of the \<^verbatim>\<open>requests\<close> library: \<open>body_json\<close> is what \<^verbatim>\<open>response.json()\<close> parses,
  \<open>None\<close> when the body is not JSON (the call then raises a ValueError).
\<close>

record response =
  status_code :: nat
  body_json :: "json option"
  body_text :: string

datatype reply = Connection_error string | Reply response

text \<open>
  The server is any function from the requests received so far and the present request to a
  reply. Every function below takes the list of requests already issued and returns it
  extended, so the calls a run makes can be read off its result.
\<close>

type_synonym remote = "request list \<Rightarrow> request \<Rightarrow> reply"

type_synonym 'a call = "request list \<times> (error + 'a)"

definition bindT :: "'a call \<Rightarrow> (request list \<Rightarrow> 'a \<Rightarrow> 'b call) \<Rightarrow> 'b call" where
  "bindT x f = (case x of (t, Inl e) \<Rightarrow> (t, Inl e) | (t, Inr a) \<Rightarrow> f t a)"

definition make_request :: "remote \<Rightarrow> request list \<Rightarrow> http_method \<Rightarrow> string \<Rightarrow> json option \<Rightarrow> response call" where
  "make_request srv t m endpoint d =
     (let r = Request m endpoint (if m = POST \<or> m = PUT then d else None)
      in (t @ [r],
          case srv t r of
            Connection_error e \<Rightarrow> Inl (Fail_json ''Errore nella richiesta HTTP: {}'' [Text e])
          | Reply resp \<Rightarrow> Inr resp))"

definition response_json :: "response \<Rightarrow> error + json" where
  "response_json resp = (case body_json resp of None \<Rightarrow> Inl (Raised ValueError) | Some j \<Rightarrow> Inr j)"

definition status_failure :: "string \<Rightarrow> response \<Rightarrow> error" where
  "status_failure msg resp = Fail_json msg [Status (status_code resp), Text (body_text resp)]"

text \<open>
  The tests of \<^verbatim>\<open>team_needs_update\<close> and \<^verbatim>\<open>key_needs_update\<close>. Each reads the current
  resource only when its parameter is set:
  \<^verbatim>\<open>if s and current.get(k) != s\<close> for the string parameters tested by truth value,
  \<^verbatim>\<open>if v is not None and current.get(k) != v\<close> for the others, and for the models
  \<^verbatim>\<open>if models is not None: ... set(current.get('models', [])) != set(models)\<close>.
\<close>

definition str_differs :: "json \<Rightarrow> string \<Rightarrow> string option \<Rightarrow> error + bool" where
  "str_differs current k s =
     (if str_truthy s then bindE (py_get current k) (\<lambda>v. Inr (\<not> py_eq v (JStr (the s))))
      else Inr False)"

definition val_differs :: "json \<Rightarrow> string \<Rightarrow> json option \<Rightarrow> error + bool" where
  "val_differs current k x =
     (case x of None \<Rightarrow> Inr False
      | Some w \<Rightarrow> bindE (py_get current k) (\<lambda>v. Inr (\<not> py_eq v w)))"

definition models_differ :: "json \<Rightarrow> string list option \<Rightarrow> error + bool" where
  "models_differ current ms =
     (case ms of None \<Rightarrow> Inr False
      | Some xs \<Rightarrow> bindE (py_get_default current ''models'' (JList [])) (\<lambda>v.
                    bindE (py_set v) (\<lambda>cur. Inr (set_differs cur xs))))"

text \<open>
  The tests run in the source's order and the first one to raise ends the call; otherwise
  \<^verbatim>\<open>needs_update\<close> is true when one of them was.
\<close>

fun any_differs :: "(error + bool) list \<Rightarrow> error + bool" where
  "any_differs [] = Inr False"
| "any_differs (x # xs) = bindE x (\<lambda>u. bindE (any_differs xs) (\<lambda>v. Inr (u \<or> v)))"

definition num :: "rat option \<Rightarrow> json option" where
  "num x = map_option JNum x"

definition intnum :: "int option \<Rightarrow> json option" where
  "intnum x = map_option (\<lambda>n. JNum (of_int n)) x"

text \<open>The write calls of a run, by kind.\<close>

datatype action = Create | Update | Delete

datatype lifecycle = Present | Absent

section \<open>Teams: \<^verbatim>\<open>litellm_team.py\<close>\<close>

text \<open>
  The parameters of the team module. In \<open>team_module_params\<close> they are what the playbook
  wrote (\<open>None\<close>: the option is left out; a \<^verbatim>\<open>state\<close> left out is \<open>Present\<close>, its
  default); in \<open>main_team\<close> they are \<^verbatim>\<open>module.params\<close>.
\<close>

record team_params =
  team_id :: "string option"
  name :: "string option"
  metadata :: "json option"
  max_budget :: "rat option"
  models :: "string list option"
  state :: lifecycle
  check_mode :: bool

text \<open>
  What \<^verbatim>\<open>AnsibleModule(argument_spec=..., required_if=...)\<close> of \<^verbatim>\<open>main\<close> makes of the
  playbook's options: \<^verbatim>\<open>metadata\<close> has \<^verbatim>\<open>default={}\<close>, \<^verbatim>\<open>name\<close> is required
  when the state is present and \<^verbatim>\<open>team_id\<close> when it is absent; a missing required option
  fails the module before \<^verbatim>\<open>main\<close> goes on.
\<close>

definition team_module_params :: "team_params \<Rightarrow> error + team_params" where
  "team_module_params a =
     (if state a = Present \<and> name a = None
      then Inl (Fail_json ''state is present but all of the following are missing: name'' [])
      else if state a = Absent \<and> team_id a = None
      then Inl (Fail_json ''state is absent but all of the following are missing: team_id'' [])
      else Inr (a\<lparr>metadata := (case metadata a of None \<Rightarrow> Some (JObj []) | Some m \<Rightarrow> Some m)\<rparr>))"

definition get_team :: "remote \<Rightarrow> request list \<Rightarrow> string \<Rightarrow> json call" where
  "get_team srv t tid =
     bindT (make_request srv t GET (''/team/'' @ tid) None) (\<lambda>t' resp.
       if status_code resp = 200 then (t', response_json resp)
       else if status_code resp = 404 then (t', Inr JNull)
       else (t', Inl (status_failure ''Errore nel recupero del team: {} - {}'' resp)))"

text \<open>The loop of \<^verbatim>\<open>get_team_by_name\<close>: the first entry whose alias or name is \<open>nm\<close>.\<close>

fun find_team :: "string \<Rightarrow> json list \<Rightarrow> error + json" where
  "find_team nm [] = Inr JNull"
| "find_team nm (team # rest) =
     bindE (py_get team ''team_alias'') (\<lambda>a.
       if py_eq a (JStr nm) then Inr team
       else bindE (py_get team ''team_name'') (\<lambda>n.
         if py_eq n (JStr nm) then Inr team else find_team nm rest))"

definition team_listing :: "json \<Rightarrow> error + json" where
  "team_listing d = (case d of JList xs \<Rightarrow> Inr d | _ \<Rightarrow> py_get_default d ''teams'' (JList []))"

definition get_team_by_name :: "remote \<Rightarrow> request list \<Rightarrow> string \<Rightarrow> json call" where
  "get_team_by_name srv t nm =
     bindT (make_request srv t GET ''/team/list'' None) (\<lambda>t' resp.
       if status_code resp = 200
       then (t', bindE (response_json resp) (\<lambda>d.
               bindE (team_listing d) (\<lambda>teams.
                 bindE (py_iter teams) (find_team nm))))
       else (t', Inl (status_failure ''Errore nella ricerca del team: {} - {}'' resp)))"

text \<open>The request body \<^verbatim>\<open>create_team\<close> builds.\<close>

definition create_team_data :: "string option \<Rightarrow> json option \<Rightarrow> rat option \<Rightarrow> string list option \<Rightarrow> json" where
  "create_team_data nm md mb ms =
     JObj ([(''team_alias'', opt_str nm)]
           @ (if opt_truthy md then [(''metadata'', the md)] else [])
           @ (case mb of None \<Rightarrow> [] | Some b \<Rightarrow> [(''max_budget'', JNum b)])
           @ (if list_truthy ms then [(''models'', str_list (the ms))] else []))"

definition create_team :: "remote \<Rightarrow> request list \<Rightarrow> string option \<Rightarrow> json option \<Rightarrow> rat option \<Rightarrow> string list option \<Rightarrow> json call" where
  "create_team srv t nm md mb ms =
     bindT (make_request srv t POST ''/team/new'' (Some (create_team_data nm md mb ms))) (\<lambda>t' resp.
       if status_code resp = 200 \<or> status_code resp = 201 then (t', response_json resp)
       else (t', Inl (status_failure ''Errore nella creazione del team: {} - {}'' resp)))"

text \<open>The request body \<^verbatim>\<open>update_team\<close> builds, as the list of its members.\<close>

definition update_team_fields :: "json \<Rightarrow> string option \<Rightarrow> json option \<Rightarrow> rat option \<Rightarrow> string list option \<Rightarrow> (string \<times> json) list" where
  "update_team_fields tid nm md mb ms =
     [(''team_id'', tid)]
     @ (if str_truthy nm then [(''team_alias'', JStr (the nm))] else [])
     @ (case md of None \<Rightarrow> [] | Some m \<Rightarrow> [(''metadata'', m)])
     @ (case mb of None \<Rightarrow> [] | Some b \<Rightarrow> [(''max_budget'', JNum b)])
     @ (case ms of None \<Rightarrow> [] | Some xs \<Rightarrow> [(''models'', str_list xs)])"

definition update_team :: "remote \<Rightarrow> request list \<Rightarrow> json \<Rightarrow> string option \<Rightarrow> json option \<Rightarrow> rat option \<Rightarrow> string list option \<Rightarrow> json call" where
  "update_team srv t tid nm md mb ms =
     bindT (make_request srv t POST ''/team/update'' (Some (JObj (update_team_fields tid nm md mb ms)))) (\<lambda>t' resp.
       if status_code resp = 200 then (t', response_json resp)
       else (t', Inl (status_failure ''Errore nell'aggiornamento del team: {} - {}'' resp)))"

definition delete_team :: "remote \<Rightarrow> request list \<Rightarrow> json \<Rightarrow> bool call" where
  "delete_team srv t tid =
     bindT (make_request srv t POST ''/team/delete'' (Some (JObj [(''team_ids'', JList [tid])]))) (\<lambda>t' resp.
       if status_code resp = 200 then (t', Inr True)
       else (t', Inl (status_failure ''Errore nell'eliminazione del team: {} - {}'' resp)))"

definition team_needs_update :: "json \<Rightarrow> string option \<Rightarrow> json option \<Rightarrow> rat option \<Rightarrow> string list option \<Rightarrow> error + bool" where
  "team_needs_update current_team nm md mb ms =
     any_differs
       [str_differs current_team ''team_alias'' nm,
        val_differs current_team ''metadata'' md,
        val_differs current_team ''max_budget'' (num mb),
        models_differ current_team ms]"

text \<open>The result handed to \<^verbatim>\<open>module.exit_json\<close>.\<close>

record result =
  changed :: bool
  resource :: json
  message :: string

text \<open>The lookup at the head of \<^verbatim>\<open>main\<close>: by id when one is given, else by name.\<close>

definition resolve_team :: "remote \<Rightarrow> team_params \<Rightarrow> json call" where
  "resolve_team srv p =
     (if str_truthy (team_id p) then get_team srv [] (the (team_id p))
      else if str_truthy (name p) then get_team_by_name srv [] (the (name p))
      else ([], Inr JNull))"

definition main_team :: "remote \<Rightarrow> team_params \<Rightarrow> result call" where
  "main_team srv p =
     bindT (resolve_team srv p) (\<lambda>t existing_team.
       if state p = Present then
         if truthy existing_team then
           bindT (t, team_needs_update existing_team (name p) (metadata p) (max_budget p) (models p)) (\<lambda>t upd.
             if upd then
               bindT (if \<not> check_mode p
                      then bindT (t, py_get existing_team ''team_id'') (\<lambda>t current_team_id.
                             update_team srv t current_team_id (name p) (metadata p) (max_budget p) (models p))
                      else (t, Inr (JObj []))) (\<lambda>t team.
                 (t, Inr \<lparr>changed = True, resource = team, message = ''Team aggiornato con successo''\<rparr>))
             else (t, Inr \<lparr>changed = False, resource = existing_team,
                           message = ''Team gi'' @ [CHR 0xE0] @ '' esistente con le configurazioni richieste''\<rparr>))
         else
           bindT (if \<not> check_mode p
                  then create_team srv t (name p) (metadata p) (max_budget p) (models p)
                  else (t, Inr (JObj []))) (\<lambda>t team.
             (t, Inr \<lparr>changed = True, resource = team, message = ''Team creato con successo''\<rparr>))
       else
         if truthy existing_team then
           bindT (if \<not> check_mode p
                  then bindT (t, py_get existing_team ''team_id'') (\<lambda>t current_team_id.
                         delete_team srv t current_team_id)
                  else (t, Inr True)) (\<lambda>t _.
             (t, Inr \<lparr>changed = True, resource = JObj [], message = ''Team eliminato con successo''\<rparr>))
         else (t, Inr \<lparr>changed = False, resource = JObj [],
                       message = ''Team non trovato, nessuna azione necessaria''\<rparr>))"

text \<open>A run of the module from the playbook's options.\<close>

definition run_team :: "remote \<Rightarrow> team_params \<Rightarrow> result call" where
  "run_team srv a = (case team_module_params a of Inl e \<Rightarrow> ([], Inl e) | Inr p \<Rightarrow> main_team srv p)"

fun team_action :: "request \<Rightarrow> action option" where
  "team_action (Request m path d) =
     (if m = POST \<and> path = ''/team/new'' then Some Create
      else if m = POST \<and> path = ''/team/update'' then Some Update
      else if m = POST \<and> path = ''/team/delete'' then Some Delete
      else None)"

section \<open>Virtual keys: \<^verbatim>\<open>litellm_virtual_key.py\<close>\<close>

record key_params =
  key_id :: "string option"
  key_alias :: "string option"
  key_team_id :: "string option"
  key_models :: "string list option"
  key_max_budget :: "rat option"
  budget_duration :: "string option"
  key_metadata :: "json option"
  expires :: "string option"
  max_parallel_requests :: "int option"
  tpm_limit :: "int option"
  rpm_limit :: "int option"
  key_state :: lifecycle
  key_check_mode :: bool

text \<open>
  The argument specification of the key module: \<^verbatim>\<open>metadata\<close> has \<^verbatim>\<open>default={}\<close>, and the
  only requirement is \<^verbatim>\<open>key_id\<close> when the state is absent.
\<close>

definition key_module_params :: "key_params \<Rightarrow> error + key_params" where
  "key_module_params a =
     (if key_state a = Absent \<and> key_id a = None
      then Inl (Fail_json ''state is absent but all of the following are missing: key_id'' [])
      else Inr (a\<lparr>key_metadata := (case key_metadata a of None \<Rightarrow> Some (JObj []) | Some m \<Rightarrow> Some m)\<rparr>))"

definition get_key :: "remote \<Rightarrow> request list \<Rightarrow> string \<Rightarrow> json call" where
  "get_key srv t kid =
     bindT (make_request srv t GET (''/key/info?key='' @ kid) None) (\<lambda>t' resp.
       if status_code resp = 200 then (t', response_json resp)
       else if status_code resp = 404 then (t', Inr JNull)
       else (t', Inl (status_failure ''Errore nel recupero della key: {} - {}'' resp)))"

text \<open>The loop of \<^verbatim>\<open>get_key_by_alias\<close>; entries that are not dicts are passed over.\<close>

fun find_key :: "string \<Rightarrow> json list \<Rightarrow> error + json" where
  "find_key alias [] = Inr JNull"
| "find_key alias (key # rest) =
     (case key of
        JObj kvs \<Rightarrow>
          bindE (py_get key ''key_alias'') (\<lambda>a.
            if py_eq a (JStr alias) then Inr key
            else bindE (py_get key ''key_name'') (\<lambda>n.
              if py_eq n (JStr alias) then Inr key else find_key alias rest))
      | _ \<Rightarrow> find_key alias rest)"

definition key_listing :: "response \<Rightarrow> error + json" where
  "key_listing resp =
     (case body_json resp of
        None \<Rightarrow> Inl (Fail_json ''Risposta non JSON valida da /key/list: {}'' [Text (body_text resp)])
      | Some d \<Rightarrow>
          (case d of
             JList xs \<Rightarrow> Inr d
           | JObj kvs \<Rightarrow> py_get_default d ''keys'' (JList [])
           | _ \<Rightarrow> Inl (Fail_json ''Risposta API non valida per /key/list: {}'' [Value d])))"

definition get_key_by_alias :: "remote \<Rightarrow> request list \<Rightarrow> string \<Rightarrow> json call" where
  "get_key_by_alias srv t alias =
     bindT (make_request srv t GET ''/key/list'' None) (\<lambda>t' resp.
       if status_code resp = 200
       then (t', bindE (key_listing resp) (\<lambda>keys. bindE (py_iter keys) (find_key alias)))
       else (t', Inl (status_failure ''Errore nella ricerca della key: {} - {}'' resp)))"

text \<open>The request body \<^verbatim>\<open>create_key\<close> builds.\<close>

definition create_key_data :: "key_params \<Rightarrow> json" where
  "create_key_data p =
     JObj ((if str_truthy (key_alias p) then [(''key_alias'', JStr (the (key_alias p)))] else [])
           @ (if str_truthy (key_team_id p) then [(''team_id'', JStr (the (key_team_id p)))] else [])
           @ (if list_truthy (key_models p) then [(''models'', str_list (the (key_models p)))] else [])
           @ (case key_max_budget p of None \<Rightarrow> [] | Some b \<Rightarrow> [(''max_budget'', JNum b)])
           @ (if str_truthy (budget_duration p) then [(''budget_duration'', JStr (the (budget_duration p)))] else [])
           @ (if opt_truthy (key_metadata p) then [(''metadata'', the (key_metadata p))] else [])
           @ (if str_truthy (expires p) then [(''expires'', JStr (the (expires p)))] else [])
           @ (case max_parallel_requests p of None \<Rightarrow> [] | Some n \<Rightarrow> [(''max_parallel_requests'', JNum (of_int n))])
           @ (case tpm_limit p of None \<Rightarrow> [] | Some n \<Rightarrow> [(''tpm_limit'', JNum (of_int n))])
           @ (case rpm_limit p of None \<Rightarrow> [] | Some n \<Rightarrow> [(''rpm_limit'', JNum (of_int n))]))"

definition create_key :: "remote \<Rightarrow> request list \<Rightarrow> key_params \<Rightarrow> json call" where
  "create_key srv t p =
     bindT (make_request srv t POST ''/key/generate'' (Some (create_key_data p))) (\<lambda>t' resp.
       if status_code resp = 200 \<or> status_code resp = 201 then (t', response_json resp)
       else (t', Inl (status_failure ''Errore nella creazione della key: {} - {}'' resp)))"

text \<open>The request body \<^verbatim>\<open>update_key\<close> builds, as the list of its members.\<close>

definition update_key_fields :: "json \<Rightarrow> key_params \<Rightarrow> (string \<times> json) list" where
  "update_key_fields kid p =
     [(''key'', kid)]
     @ (if str_truthy (key_alias p) then [(''key_alias'', JStr (the (key_alias p)))] else [])
     @ (if str_truthy (key_team_id p) then [(''team_id'', JStr (the (key_team_id p)))] else [])
     @ (case key_models p of None \<Rightarrow> [] | Some xs \<Rightarrow> [(''models'', str_list xs)])
     @ (case key_max_budget p of None \<Rightarrow> [] | Some b \<Rightarrow> [(''max_budget'', JNum b)])
     @ (if str_truthy (budget_duration p) then [(''budget_duration'', JStr (the (budget_duration p)))] else [])
     @ (case key_metadata p of None \<Rightarrow> [] | Some m \<Rightarrow> [(''metadata'', m)])
     @ (if str_truthy (expires p) then [(''expires'', JStr (the (expires p)))] else [])
     @ (case max_parallel_requests p of None \<Rightarrow> [] | Some n \<Rightarrow> [(''max_parallel_requests'', JNum (of_int n))])
     @ (case tpm_limit p of None \<Rightarrow> [] | Some n \<Rightarrow> [(''tpm_limit'', JNum (of_int n))])
     @ (case rpm_limit p of None \<Rightarrow> [] | Some n \<Rightarrow> [(''rpm_limit'', JNum (of_int n))])"

definition update_key :: "remote \<Rightarrow> request list \<Rightarrow> json \<Rightarrow> key_params \<Rightarrow> json call" where
  "update_key srv t kid p =
     bindT (make_request srv t POST ''/key/update'' (Some (JObj (update_key_fields kid p)))) (\<lambda>t' resp.
       if status_code resp = 200 then (t', response_json resp)
       else (t', Inl (status_failure ''Errore nell'aggiornamento della key: {} - {}'' resp)))"

definition delete_key :: "remote \<Rightarrow> request list \<Rightarrow> json \<Rightarrow> bool call" where
  "delete_key srv t kid =
     bindT (make_request srv t POST ''/key/delete'' (Some (JObj [(''keys'', JList [kid])]))) (\<lambda>t' resp.
       if status_code resp = 200 then (t', Inr True)
       else (t', Inl (status_failure ''Errore nell'eliminazione della key: {} - {}'' resp)))"

definition key_needs_update :: "json \<Rightarrow> key_params \<Rightarrow> error + bool" where
  "key_needs_update current_key p =
     any_differs
       [str_differs current_key ''key_alias'' (key_alias p),
        str_differs current_key ''team_id'' (key_team_id p),
        models_differ current_key (key_models p),
        val_differs current_key ''max_budget'' (num (key_max_budget p)),
        str_differs current_key ''budget_duration'' (budget_duration p),
        val_differs current_key ''metadata'' (key_metadata p),
        str_differs current_key ''expires'' (expires p),
        val_differs current_key ''max_parallel_requests'' (intnum (max_parallel_requests p)),
        val_differs current_key ''tpm_limit'' (intnum (tpm_limit p)),
        val_differs current_key ''rpm_limit'' (intnum (rpm_limit p))]"

text \<open>\<^verbatim>\<open>existing_key.get('token') or existing_key.get('key')\<close>.\<close>

definition current_key_id :: "json \<Rightarrow> error + json" where
  "current_key_id existing_key =
     bindE (py_get existing_key ''token'') (\<lambda>tok.
       if truthy tok then Inr tok else py_get existing_key ''key'')"

definition resolve_key :: "remote \<Rightarrow> key_params \<Rightarrow> json call" where
  "resolve_key srv p =
     (if str_truthy (key_id p) then get_key srv [] (the (key_id p))
      else if str_truthy (key_alias p) then get_key_by_alias srv [] (the (key_alias p))
      else ([], Inr JNull))"

definition main_key :: "remote \<Rightarrow> key_params \<Rightarrow> result call" where
  "main_key srv p =
     bindT (resolve_key srv p) (\<lambda>t existing_key.
       if key_state p = Present then
         if truthy existing_key then
           bindT (t, key_needs_update existing_key p) (\<lambda>t upd.
             if upd then
               bindT (if \<not> key_check_mode p
                      then bindT (t, current_key_id existing_key) (\<lambda>t kid. update_key srv t kid p)
                      else (t, Inr (JObj []))) (\<lambda>t key.
                 (t, Inr \<lparr>changed = True, resource = key, message = ''Virtual key aggiornata con successo''\<rparr>))
             else (t, Inr \<lparr>changed = False, resource = existing_key,
                           message = ''Virtual key gi'' @ [CHR 0xE0] @ '' esistente con le configurazioni richieste''\<rparr>))
         else
           bindT (if \<not> key_check_mode p then create_key srv t p else (t, Inr (JObj []))) (\<lambda>t key.
             (t, Inr \<lparr>changed = True, resource = key, message = ''Virtual key creata con successo''\<rparr>))
       else
         if truthy existing_key then
           bindT (if \<not> key_check_mode p
                  then bindT (t, current_key_id existing_key) (\<lambda>t kid. delete_key srv t kid)
                  else (t, Inr True)) (\<lambda>t _.
             (t, Inr \<lparr>changed = True, resource = JObj [], message = ''Virtual key eliminata con successo''\<rparr>))
         else (t, Inr \<lparr>changed = False, resource = JObj [],
                       message = ''Virtual key non trovata, nessuna azione necessaria''\<rparr>))"

definition run_key :: "remote \<Rightarrow> key_params \<Rightarrow> result call" where
  "run_key srv a = (case key_module_params a of Inl e \<Rightarrow> ([], Inl e) | Inr p \<Rightarrow> main_key srv p)"

fun key_action :: "request \<Rightarrow> action option" where
  "key_action (Request m path d) =
     (if m = POST \<and> path = ''/key/generate'' then Some Create
      else if m = POST \<and> path = ''/key/update'' then Some Update
      else if m = POST \<and> path = ''/key/delete'' then Some Delete
      else None)"

section \<open>Endpoints: \<^verbatim>\<open>litellm_endpoint.py\<close>\<close>

record endpoint_params =
  endpoint_name :: string
  api_base :: "string option"
  provider :: "string option"
  endpoint_api_key :: "string option"
  api_version :: "string option"
  endpoint_metadata :: "(string \<times> json) list option"
  endpoint_state :: lifecycle
  endpoint_check_mode :: bool

text \<open>\<^verbatim>\<open>_extract_provider\<close>: the part of the model identifier before its first slash.\<close>

definition extract_provider :: "json \<Rightarrow> error + json" where
  "extract_provider lp =
     bindE (py_get_default lp ''model'' (JStr [])) (\<lambda>model.
       bindE (py_in ''/'' model) (\<lambda>has_slash.
         if has_slash
         then (case model of
                 JStr m \<Rightarrow> Inr (JStr (takeWhile (\<lambda>c. c \<noteq> CHR ''/'') m))
               | _ \<Rightarrow> Inl (Raised AttributeError))
         else Inr (JStr ''unknown'')))"

text \<open>
  The loop of \<^verbatim>\<open>get_endpoints\<close>: a model counts as an endpoint when it has
  \<^verbatim>\<open>litellm_params\<close> with an \<^verbatim>\<open>api_base\<close>.
\<close>

fun endpoint_infos :: "json list \<Rightarrow> error + json list" where
  "endpoint_infos [] = Inr []"
| "endpoint_infos (model # rest) =
     bindE (py_in ''litellm_params'' model) (\<lambda>has_params.
       bindE (if has_params
              then bindE (py_getitem model ''litellm_params'') (\<lambda>lp. py_in ''api_base'' lp)
              else Inr False) (\<lambda>is_endpoint.
         if is_endpoint then
           bindE (py_get_default model ''model_name'' (JStr ''unknown'')) (\<lambda>nm.
           bindE (py_getitem model ''litellm_params'') (\<lambda>lp.
           bindE (py_getitem lp ''api_base'') (\<lambda>base.
           bindE (extract_provider lp) (\<lambda>prov.
           bindE (py_get_default model ''model_info'' (JObj [])) (\<lambda>info.
           bindE (endpoint_infos rest) (\<lambda>more.
             Inr (JObj [(''endpoint_name'', nm), (''api_base'', base),
                        (''provider'', prov), (''metadata'', info)] # more)))))))
         else endpoint_infos rest))"

definition endpoints_of :: "json \<Rightarrow> error + json" where
  "endpoints_of d =
     bindE (py_in ''data'' d) (\<lambda>has_data.
       if has_data
       then bindE (py_getitem d ''data'') (\<lambda>ms.
              bindE (py_iter ms) (\<lambda>xs.
                bindE (endpoint_infos xs) (\<lambda>es. Inr (JObj [(''endpoints'', JList es)]))))
       else Inr (JObj [(''endpoints'', JList [])]))"

definition get_endpoints :: "remote \<Rightarrow> request list \<Rightarrow> json call" where
  "get_endpoints srv t =
     bindT (make_request srv t GET ''/model/info'' None) (\<lambda>t' resp.
       if status_code resp = 200
       then (t', bindE (response_json resp) endpoints_of)
       else (t', Inl (status_failure ''Errore nel recupero degli endpoint: {} - {}'' resp)))"

fun find_endpoint :: "string \<Rightarrow> json list \<Rightarrow> error + json" where
  "find_endpoint nm [] = Inr JNull"
| "find_endpoint nm (endpoint # rest) =
     bindE (py_get endpoint ''endpoint_name'') (\<lambda>v.
       if py_eq v (JStr nm) then Inr endpoint else find_endpoint nm rest)"

definition get_endpoint :: "remote \<Rightarrow> request list \<Rightarrow> string \<Rightarrow> json call" where
  "get_endpoint srv t nm =
     bindT (get_endpoints srv t) (\<lambda>t' endpoints.
       (t', bindE (py_get_default endpoints ''endpoints'' (JList [])) (\<lambda>es.
              bindE (py_iter es) (find_endpoint nm))))"

text \<open>The request body \<^verbatim>\<open>create_endpoint\<close> builds.\<close>

definition create_endpoint_data :: "string \<Rightarrow> string \<Rightarrow> string \<Rightarrow> string option \<Rightarrow> string option \<Rightarrow> (string \<times> json) list option \<Rightarrow> json" where
  "create_endpoint_data nm base prov akey aver md =
     (let lp =
            [(''model'', JStr (prov @ ''/endpoint-'' @ nm)), (''api_base'', JStr base)]
            @ (if str_truthy akey then [(''api_key'', JStr (the akey))] else [])
            @ (if str_truthy aver then [(''api_version'', JStr (the aver))] else []);
          info = dict_set (case md of None \<Rightarrow> [] | Some m \<Rightarrow> m)
                   ''endpoint_type'' (JStr ''managed_endpoint'')
      in JObj [(''model_name'', JStr nm), (''litellm_params'', JObj lp), (''model_info'', JObj info)])"

definition create_endpoint :: "remote \<Rightarrow> request list \<Rightarrow> string \<Rightarrow> string \<Rightarrow> string \<Rightarrow> string option \<Rightarrow> string option \<Rightarrow> (string \<times> json) list option \<Rightarrow> json call" where
  "create_endpoint srv t nm base prov akey aver md =
     bindT (make_request srv t POST ''/model/new'' (Some (create_endpoint_data nm base prov akey aver md))) (\<lambda>t' resp.
       if status_code resp = 200 \<or> status_code resp = 201 then (t', response_json resp)
       else (t', Inl (status_failure ''Errore nella creazione dell'endpoint: {} - {}'' resp)))"

text \<open>\<^verbatim>\<open>delete_endpoint\<close> sends nothing: it fails the module with a fixed message.\<close>

definition delete_endpoint_msg :: string where
  "delete_endpoint_msg = ''Eliminazione endpoint non supportata direttamente dall'API. Rimuovi l'endpoint dal file di configurazione config.yaml''"

definition delete_endpoint :: "request list \<Rightarrow> string \<Rightarrow> bool call" where
  "delete_endpoint t nm = (t, Inl (Fail_json delete_endpoint_msg []))"

text \<open>
  \<^verbatim>\<open>except Exception as e: module.fail_json(...)\<close> around the body of \<^verbatim>\<open>main\<close>: a Python
  exception becomes a failure of the module; the exit of \<^verbatim>\<open>fail_json\<close> itself is not an
  \<^verbatim>\<open>Exception\<close> and passes through.
\<close>

definition catch_all :: "'a call \<Rightarrow> 'a call" where
  "catch_all x =
     (case x of
        (t, Inl (Raised e)) \<Rightarrow> (t, Inl (Fail_json ''Errore imprevisto: {}'' [Exc e]))
      | _ \<Rightarrow> x)"

definition quoted :: "string \<Rightarrow> string" where
  "quoted nm = [CHR 0x27] @ nm @ [CHR 0x27]"

definition main_endpoint :: "remote \<Rightarrow> endpoint_params \<Rightarrow> result call" where
  "main_endpoint srv p =
     catch_all
       (if endpoint_state p = Present then
          if \<not> str_truthy (api_base p) \<or> \<not> str_truthy (provider p)
          then ([], Inl (Fail_json (''api_base e provider sono richiesti quando state '' @ [CHR 0xE8] @ '' '' @ quoted ''present'') []))
          else
            bindT (get_endpoint srv [] (endpoint_name p)) (\<lambda>t existing_endpoint.
              bindT (if truthy existing_endpoint
                     then (t, Inr (False, ''Endpoint '' @ quoted (endpoint_name p) @ '' gi'' @ [CHR 0xE0] @ '' esistente''))
                     else bindT (create_endpoint srv t (endpoint_name p) (the (api_base p)) (the (provider p))
                                   (endpoint_api_key p) (api_version p) (endpoint_metadata p)) (\<lambda>t _.
                            (t, Inr (True, ''Endpoint '' @ quoted (endpoint_name p) @ '' creato con successo'')))) (\<lambda>t (chg, msg).
                bindT (get_endpoint srv t (endpoint_name p)) (\<lambda>t endpoint.
                  (t, Inr \<lparr>changed = chg, resource = endpoint, message = msg\<rparr>))))
        else
          bindT (get_endpoint srv [] (endpoint_name p)) (\<lambda>t existing_endpoint.
            if truthy existing_endpoint
            then bindT (delete_endpoint t (endpoint_name p)) (\<lambda>t _.
                   (t, Inr \<lparr>changed = True, resource = JNull,
                             message = ''Endpoint '' @ quoted (endpoint_name p) @ '' eliminato con successo''\<rparr>))
            else (t, Inr \<lparr>changed = False, resource = JNull,
                          message = ''Endpoint '' @ quoted (endpoint_name p) @ '' non trovato''\<rparr>)))"

text \<open>
  Endpoints and models are both created by \<^verbatim>\<open>POST /model/new\<close>; any other request that is
  not a \<^verbatim>\<open>GET\<close> would be a write too.
\<close>

fun model_action :: "request \<Rightarrow> action option" where
  "model_action (Request m path d) =
     (if m = GET then None
      else if m = POST \<and> path = ''/model/new'' then Some Create
      else if m = DELETE then Some Delete
      else Some Update)"

section \<open>Models: \<^verbatim>\<open>litellm_model.py\<close>\<close>

record model_params =
  model_name :: string
  litellm_params :: "(string \<times> json) list option"
  model_info :: "(string \<times> json) list option"
  model_state :: lifecycle
  model_check_mode :: bool

definition get_models :: "remote \<Rightarrow> request list \<Rightarrow> json call" where
  "get_models srv t =
     bindT (make_request srv t GET ''/model/info'' None) (\<lambda>t' resp.
       if status_code resp = 200 then (t', response_json resp)
       else (t', Inl (status_failure ''Errore nel recupero dei modelli: {} - {}'' resp)))"

fun find_model :: "string \<Rightarrow> json list \<Rightarrow> error + json" where
  "find_model nm [] = Inr JNull"
| "find_model nm (model # rest) =
     bindE (py_get model ''model_name'') (\<lambda>v.
       if py_eq v (JStr nm) then Inr model else find_model nm rest)"

definition get_model :: "remote \<Rightarrow> request list \<Rightarrow> string \<Rightarrow> json call" where
  "get_model srv t nm =
     bindT (get_models srv t) (\<lambda>t' models.
       (t', bindE (py_in ''data'' models) (\<lambda>has_data.
              if has_data
              then bindE (py_getitem models ''data'') (\<lambda>ms. bindE (py_iter ms) (find_model nm))
              else Inr JNull)))"

definition create_model_data :: "string \<Rightarrow> (string \<times> json) list option \<Rightarrow> (string \<times> json) list option \<Rightarrow> json" where
  "create_model_data nm lp info =
     JObj ([(''model_name'', JStr nm),
            (''litellm_params'', (case lp of None \<Rightarrow> JNull | Some kvs \<Rightarrow> JObj kvs))]
           @ (case info of None \<Rightarrow> [] | Some kvs \<Rightarrow> if kvs \<noteq> [] then [(''model_info'', JObj kvs)] else []))"

definition create_model :: "remote \<Rightarrow> request list \<Rightarrow> string \<Rightarrow> (string \<times> json) list option \<Rightarrow> (string \<times> json) list option \<Rightarrow> json call" where
  "create_model srv t nm lp info =
     bindT (make_request srv t POST ''/model/new'' (Some (create_model_data nm lp info))) (\<lambda>t' resp.
       if status_code resp = 200 \<or> status_code resp = 201 then (t', response_json resp)
       else (t', Inl (status_failure ''Errore nella creazione del modello: {} - {}'' resp)))"

definition delete_model_msg :: string where
  "delete_model_msg = ''Eliminazione modelli non supportata direttamente dall'API. Rimuovi il modello dal file di configurazione config.yaml''"

definition delete_model :: "request list \<Rightarrow> string \<Rightarrow> bool call" where
  "delete_model t nm = (t, Inl (Fail_json delete_model_msg []))"

definition main_model :: "remote \<Rightarrow> model_params \<Rightarrow> result call" where
  "main_model srv p =
     catch_all
       (if model_state p = Present then
          if (case litellm_params p of None \<Rightarrow> True | Some kvs \<Rightarrow> kvs = [])
          then ([], Inl (Fail_json (''litellm_params '' @ [CHR 0xE8] @ '' richiesto quando state '' @ [CHR 0xE8] @ '' '' @ quoted ''present'') []))
          else
            bindT (get_model srv [] (model_name p)) (\<lambda>t existing_model.
              bindT (if truthy existing_model
                     then (t, Inr (False, ''Modello '' @ quoted (model_name p) @ '' gi'' @ [CHR 0xE0] @ '' esistente''))
                     else bindT (create_model srv t (model_name p) (litellm_params p) (model_info p)) (\<lambda>t _.
                            (t, Inr (True, ''Modello '' @ quoted (model_name p) @ '' creato con successo'')))) (\<lambda>t (chg, msg).
                bindT (get_model srv t (model_name p)) (\<lambda>t model.
                  (t, Inr \<lparr>changed = chg, resource = model, message = msg\<rparr>))))
        else
          bindT (get_model srv [] (model_name p)) (\<lambda>t existing_model.
            if truthy existing_model
            then bindT (delete_model t (model_name p)) (\<lambda>t _.
                   (t, Inr \<lparr>changed = True, resource = JNull,
                             message = ''Modello '' @ quoted (model_name p) @ '' eliminato con successo''\<rparr>))
            else (t, Inr \<lparr>changed = False, resource = JNull,
                          message = ''Modello '' @ quoted (model_name p) @ '' non trovato''\<rparr>)))"

section \<open>The decision table of the specification\<close>

text \<open>
  The table of the specification, section 4.4: from the intent, whether the resource exists
  and whether it needs an update, to the write to perform (\<open>None\<close>: no action).
\<close>

definition decision_table :: "lifecycle \<Rightarrow> bool \<Rightarrow> bool \<Rightarrow> action option" where
  "decision_table intent exists needs_update =
     (case intent of
        Present \<Rightarrow> (if \<not> exists then Some Create else if needs_update then Some Update else None)
      | Absent \<Rightarrow> (if exists then Some Delete else None))"

text \<open>The writes a decision stands for, and the writes a run has issued.\<close>

definition performed :: "action option \<Rightarrow> action list" where
  "performed d = (case d of None \<Rightarrow> [] | Some a \<Rightarrow> [a])"

definition team_actions :: "request list \<Rightarrow> action list" where
  "team_actions t = List.map_filter team_action t"

definition key_actions :: "request list \<Rightarrow> action list" where
  "key_actions t = List.map_filter key_action t"

definition model_actions :: "request list \<Rightarrow> action list" where
  "model_actions t = List.map_filter model_action t"

section \<open>Looking a resource up in a listing\<close>

text \<open>
  \<^verbatim>\<open>isinstance(data, list)\<close> and \<^verbatim>\<open>isinstance(data, dict)\<close>; an entry matches a name when it
  is a dict whose alias member or whose name member is that string; the first match of a
  listing is the first such entry, or \<^verbatim>\<open>None\<close>.
\<close>

fun is_list :: "json \<Rightarrow> bool" where
  "is_list (JList xs) = True"
| "is_list _ = False"

fun is_dict :: "json \<Rightarrow> bool" where
  "is_dict (JObj kvs) = True"
| "is_dict _ = False"

definition entry_matches :: "string \<Rightarrow> string \<Rightarrow> string \<Rightarrow> json \<Rightarrow> bool" where
  "entry_matches alias_field name_field nm e =
     (case e of
        JObj kvs \<Rightarrow> map_of kvs alias_field = Some (JStr nm) \<or> map_of kvs name_field = Some (JStr nm)
      | _ \<Rightarrow> False)"

definition first_match :: "(json \<Rightarrow> bool) \<Rightarrow> json list \<Rightarrow> json" where
  "first_match P xs = (case List.find P xs of None \<Rightarrow> JNull | Some e \<Rightarrow> e)"

section \<open>The needs-update of the specification\<close>

text \<open>
  Section 4.4 of the specification: needs-update holds when some comparable field that the
  declaration sets differs from the same field of the existing resource, a list field
  compared as a set and any other by equality. A declared field is the member it is
  compared with and its desired value; a member the resource lacks reads as \<^verbatim>\<open>None\<close>, a
  missing list as the empty list.
\<close>

datatype declared_field = Scalar string json | Listed string "string list"

definition member_of :: "json \<Rightarrow> string \<Rightarrow> json" where
  "member_of existing k =
     (case existing of
        JObj kvs \<Rightarrow> (case map_of kvs k of None \<Rightarrow> JNull | Some v \<Rightarrow> v)
      | _ \<Rightarrow> JNull)"

definition listed :: "json \<Rightarrow> string \<Rightarrow> json list" where
  "listed existing k = (case member_of existing k of JList xs \<Rightarrow> xs | _ \<Rightarrow> [])"

fun field_differs :: "json \<Rightarrow> declared_field \<Rightarrow> bool" where
  "field_differs existing (Scalar k v) = (\<not> py_eq (member_of existing k) v)"
| "field_differs existing (Listed k ms) = (set (listed existing k) \<noteq> set (map JStr ms))"

definition some_declared_field_differs :: "json \<Rightarrow> declared_field list \<Rightarrow> bool" where
  "some_declared_field_differs existing fs = list_ex (field_differs existing) fs"

text \<open>
  The fields a declaration sets: an option counts as set when it is not \<^verbatim>\<open>None\<close> and, for
  the string options that the modules test by truth value, not empty.
\<close>

definition declared_str :: "string \<Rightarrow> string option \<Rightarrow> declared_field list" where
  "declared_str k s = (if str_truthy s then [Scalar k (JStr (the s))] else [])"

definition declared_val :: "string \<Rightarrow> json option \<Rightarrow> declared_field list" where
  "declared_val k x = (case x of None \<Rightarrow> [] | Some v \<Rightarrow> [Scalar k v])"

definition declared_models :: "string list option \<Rightarrow> declared_field list" where
  "declared_models ms = (case ms of None \<Rightarrow> [] | Some xs \<Rightarrow> [Listed ''models'' xs])"

definition team_declared :: "team_params \<Rightarrow> declared_field list" where
  "team_declared p =
     declared_str ''team_alias'' (name p) @ declared_val ''metadata'' (metadata p)
     @ declared_val ''max_budget'' (num (max_budget p)) @ declared_models (models p)"

definition key_declared :: "key_params \<Rightarrow> declared_field list" where
  "key_declared p =
     declared_str ''key_alias'' (key_alias p) @ declared_str ''team_id'' (key_team_id p)
     @ declared_models (key_models p) @ declared_val ''max_budget'' (num (key_max_budget p))
     @ declared_str ''budget_duration'' (budget_duration p) @ declared_val ''metadata'' (key_metadata p)
     @ declared_str ''expires'' (expires p)
     @ declared_val ''max_parallel_requests'' (intnum (max_parallel_requests p))
     @ declared_val ''tpm_limit'' (intnum (tpm_limit p)) @ declared_val ''rpm_limit'' (intnum (rpm_limit p))"

text \<open>
  A resource as the API reports it: an object whose \<^verbatim>\<open>models\<close> member, when there is one,
  is a list of scalars.
\<close>

definition well_formed :: "json \<Rightarrow> bool" where
  "well_formed existing =
     (case existing of
        JObj kvs \<Rightarrow>
          (case map_of kvs ''models'' of
             None \<Rightarrow> True
           | Some v \<Rightarrow> (case v of JList xs \<Rightarrow> list_all hashable xs | _ \<Rightarrow> False))
      | _ \<Rightarrow> False)"

section \<open>Example servers and runs\<close>

text \<open>A server that answers every request with status 200 and the model listing \<open>ms\<close>.\<close>

definition listing_of :: "json list \<Rightarrow> remote" where
  "listing_of ms = (\<lambda>t r. Reply \<lparr>status_code = 200, body_json = Some (JObj [(''data'', JList ms)]), body_text = []\<rparr>)"

text \<open>
  A team as the API reports it, and a server that knows this one team: it lists it, returns
  it under its id, answers every write with status 200 and everything else with 404.
\<close>

definition team_x :: json where
  "team_x = JObj [(''team_id'', JStr ''t1''), (''team_alias'', JStr ''team-x''),
                  (''max_budget'', JNum 500), (''metadata'', JObj [(''owner'', JStr ''alice'')]),
                  (''models'', JList [JStr ''gpt-4'', JStr ''gpt-3.5''])]"

definition ok :: "json \<Rightarrow> reply" where
  "ok j = Reply \<lparr>status_code = 200, body_json = Some j, body_text = []\<rparr>"

definition not_found :: reply where
  "not_found = Reply \<lparr>status_code = 404, body_json = None, body_text = ''not found''\<rparr>"

definition team_server :: remote where
  "team_server t r =
     (case r of Request m path d \<Rightarrow>
        if m = GET \<and> path = ''/team/list'' then ok (JList [team_x])
        else if m = GET \<and> path = ''/team/t1'' then ok team_x
        else if m = POST then ok (JObj [(''team_id'', JStr ''t1'')])
        else not_found)"

text \<open>A key as the API reports it, and a server that knows this one key.\<close>

definition key_456 :: json where
  "key_456 = JObj [(''token'', JStr ''key-456''), (''key_alias'', JStr ''ds-team-prod-key''),
                   (''max_budget'', JNum 500),
                   (''metadata'', JObj [(''environment'', JStr ''production'')])]"

definition key_server :: remote where
  "key_server t r =
     (case r of Request m path d \<Rightarrow>
        if m = GET \<and> path = ''/key/list'' then ok (JObj [(''keys'', JList [key_456])])
        else if m = GET \<and> path = ''/key/info?key=key-456'' then ok key_456
        else if m = POST then ok (JObj [(''key'', JStr ''key-456'')])
        else not_found)"

text \<open>The key \<^verbatim>\<open>key-456\<close> declared absent.\<close>

definition key_456_absent :: key_params where
  "key_456_absent =
     \<lparr>key_id = Some ''key-456'', key_alias = None, key_team_id = None, key_models = None,
      key_max_budget = None, budget_duration = None, key_metadata = None, expires = None,
      max_parallel_requests = None, tpm_limit = None, rpm_limit = None,
      key_state = Absent, key_check_mode = False\<rparr>"

text \<open>An endpoint and a model as a playbook declares them, and the bodies their creation sends.\<close>

definition gpu_1 :: endpoint_params where
  "gpu_1 =
     \<lparr>endpoint_name = ''gpu-1'', api_base = Some ''http://h:8000'', provider = Some ''openai'',
      endpoint_api_key = None, api_version = None, endpoint_metadata = Some [],
      endpoint_state = Present, endpoint_check_mode = False\<rparr>"

definition gpt_4 :: model_params where
  "gpt_4 =
     \<lparr>model_name = ''gpt-4'', litellm_params = Some [(''model'', JStr ''openai/gpt-4'')],
      model_info = Some [], model_state = Present, model_check_mode = False\<rparr>"

definition gpu_1_model :: json where
  "gpu_1_model = create_endpoint_data ''gpu-1'' ''http://h:8000'' ''openai'' None None (Some [])"

definition gpt_4_model :: json where
  "gpt_4_model = create_model_data ''gpt-4'' (Some [(''model'', JStr ''openai/gpt-4'')]) (Some [])"

text \<open>
  A server that answers every request with status 200 and the document \<open>j\<close>; a second team,
  a server that knows both teams, and a declaration whose id is that of the first team and
  whose name is that of the second.
\<close>

definition replying :: "json \<Rightarrow> remote" where
  "replying j = (\<lambda>t r. ok j)"

definition team_y :: json where
  "team_y = JObj [(''team_id'', JStr ''t2''), (''team_alias'', JStr ''team-y'')]"

definition two_team_server :: remote where
  "two_team_server t r =
     (case r of Request m path d \<Rightarrow>
        if m = GET \<and> path = ''/team/list'' then ok (JList [team_x, team_y])
        else if m = GET \<and> path = ''/team/t1'' then ok team_x
        else if m = GET \<and> path = ''/team/t2'' then ok team_y
        else if m = POST then ok (JObj [(''team_id'', JStr ''t1'')])
        else not_found)"

definition t1_named_team_y :: team_params where
  "t1_named_team_y =
     \<lparr>team_id = Some ''t1'', name = Some ''team-y'', metadata = None, max_budget = None,
      models = None, state = Present, check_mode = False\<rparr>"

text \<open>
  Declarations used below: a key with no id and no alias, a team with no name, the team
  \<^verbatim>\<open>team-x\<close> declared with the name and budget the server already holds, and the key
  \<^verbatim>\<open>key-456\<close> declared with a new budget only (the module's own example of an update).
  None of them declares any metadata.
\<close>

definition anonymous_key :: key_params where
  "anonymous_key =
     \<lparr>key_id = None, key_alias = None, key_team_id = None, key_models = None,
      key_max_budget = None, budget_duration = None, key_metadata = None, expires = None,
      max_parallel_requests = None, tpm_limit = None, rpm_limit = None,
      key_state = Present, key_check_mode = False\<rparr>"

definition unnamed_team :: team_params where
  "unnamed_team =
     \<lparr>team_id = None, name = None, metadata = None, max_budget = Some 1000,
      models = None, state = Present, check_mode = False\<rparr>"

definition team_x_as_is :: team_params where
  "team_x_as_is =
     \<lparr>team_id = None, name = Some ''team-x'', metadata = None, max_budget = Some 500,
      models = None, state = Present, check_mode = False\<rparr>"

definition key_456_budget :: key_params where
  "key_456_budget =
     \<lparr>key_id = Some ''key-456'', key_alias = None, key_team_id = None, key_models = None,
      key_max_budget = Some 1000, budget_duration = None, key_metadata = None, expires = None,
      max_parallel_requests = None, tpm_limit = None, rpm_limit = None,
      key_state = Present, key_check_mode = False\<rparr>"

text \<open>
  The team \<^verbatim>\<open>t1\<close> declared by id with the name and the models the server holds, and the key
  \<^verbatim>\<open>key-456\<close> declared with the budget the server holds; no metadata declared.
\<close>

definition t1_as_is :: team_params where
  "t1_as_is =
     \<lparr>team_id = Some ''t1'', name = Some ''team-x'', metadata = None, max_budget = None,
      models = Some [''gpt-3.5'', ''gpt-4''], state = Present, check_mode = False\<rparr>"

definition key_456_as_is :: key_params where
  "key_456_as_is =
     \<lparr>key_id = Some ''key-456'', key_alias = None, key_team_id = None, key_models = None,
      key_max_budget = Some 500, budget_duration = None, key_metadata = None, expires = None,
      max_parallel_requests = None, tpm_limit = None, rpm_limit = None,
      key_state = Present, key_check_mode = False\<rparr>"

section \<open>Basic facts\<close>

lemma bindE_simps [simp]:
  "bindE (Inl e) f = Inl e"
  "bindE (Inr a) f = f a"
  by (simp_all add: bindE_def)

lemma bindT_simps [simp]:
  "bindT (t, Inl e) f = (t, Inl e)"
  "bindT (t, Inr a) f = f t a"
  by (simp_all add: bindT_def)

lemma py_eq_JStr [simp]: "py_eq v (JStr s) \<longleftrightarrow> v = JStr s"
  by (cases v) auto

lemma models_same_set:
  assumes "map_of kvs ''models'' = Some (JList (map JStr cur))" and "set cur = set ms"
  shows "models_differ (JObj kvs) (Some ms) = Inr False"
  using assms
  by (auto simp: models_differ_def py_set_def set_differs_def list_all_iff)

lemma models_unset: "models_differ current None = Inr False"
  by (simp add: models_differ_def)



section \<open>Change detection on the models list\<close>

text \<open>
  C9. The models list is compared as a set. When the current resource holds a models list
  with the same elements as the desired list, in any order and with any repetition, the
  models parameter contributes nothing to \<^verbatim>\<open>team_needs_update\<close> and
  \<^verbatim>\<open>key_needs_update\<close>: the result is the one obtained with the models left out, and
  with nothing else declared it is \<open>False\<close>, so the run decides for no action.
\<close>

theorem models_compared_as_sets:
  assumes "map_of kvs ''models'' = Some (JList (map JStr cur))" and "set cur = set ms"
  shows "team_needs_update (JObj kvs) nm md mb (Some ms) = team_needs_update (JObj kvs) nm md mb None
       \<and> key_needs_update (JObj kvs) (p\<lparr>key_models := Some ms\<rparr>) = key_needs_update (JObj kvs) (p\<lparr>key_models := None\<rparr>)
       \<and> team_needs_update (JObj kvs) None None None (Some ms) = Inr False"
  using models_same_set [OF assms]
  by (simp add: team_needs_update_def key_needs_update_def models_unset str_differs_def
      val_differs_def str_truthy_def num_def)

theorem models_compared_as_sets_witness:
  "map_of [(''team_id'', JStr ''t1''), (''models'', JList (map JStr [''gpt-4'', ''gpt-3.5'']))] ''models''
     = Some (JList (map JStr [''gpt-4'', ''gpt-3.5'']))
   \<and> set [''gpt-4'', ''gpt-3.5''] = set [''gpt-3.5'', ''gpt-4'']
   \<and> team_needs_update (JObj [(''team_id'', JStr ''t1''), (''models'', JList (map JStr [''gpt-4'', ''gpt-3.5'']))])
        None None None (Some [''gpt-3.5'', ''gpt-4'']) = Inr False"
proof -
  have h1: "map_of [(''team_id'', JStr ''t1''), (''models'', JList (map JStr [''gpt-4'', ''gpt-3.5'']))] ''models''
     = Some (JList (map JStr [''gpt-4'', ''gpt-3.5'']))"
    by simp
  have h2: "set [''gpt-4'', ''gpt-3.5''] = set [''gpt-3.5'', ''gpt-4'']"
    by auto
  from models_compared_as_sets [OF h1 h2] h1 h2 show ?thesis
    by blast
qed

section \<open>The endpoint's derived model identifier\<close>

lemma map_of_dict_set: "map_of (dict_set kvs k v) k = Some v"
  by (induction kvs) auto



section \<open>The decision table\<close>

lemma team_actions_simps [simp]:
  "team_actions [] = []"
  "team_actions (t @ u) = team_actions t @ team_actions u"
  "team_actions (r # t) = (case team_action r of None \<Rightarrow> team_actions t | Some a \<Rightarrow> a # team_actions t)"
  by (simp_all add: team_actions_def map_filter_def split: option.splits)

lemma key_actions_simps [simp]:
  "key_actions [] = []"
  "key_actions (t @ u) = key_actions t @ key_actions u"
  "key_actions (r # t) = (case key_action r of None \<Rightarrow> key_actions t | Some a \<Rightarrow> a # key_actions t)"
  by (simp_all add: key_actions_def map_filter_def split: option.splits)

lemma make_request_trace:
  "make_request srv t m ep d = (t', r) \<Longrightarrow> t' = t @ [Request m ep (if m = POST \<or> m = PUT then d else None)]"
  by (auto simp: make_request_def Let_def)

lemma get_team_trace: "get_team srv t tid = (t', r) \<Longrightarrow> t' = t @ [Request GET (''/team/'' @ tid) None]"
  unfolding get_team_def
  by (cases "make_request srv t GET (''/team/'' @ tid) None"; cases "snd (make_request srv t GET (''/team/'' @ tid) None)")
     (auto dest!: make_request_trace split: if_splits)


lemma get_team_by_name_trace:
  "get_team_by_name srv t nm = (t', r) \<Longrightarrow> t' = t @ [Request GET ''/team/list'' None]"
  unfolding get_team_by_name_def
  by (cases "make_request srv t GET ''/team/list'' None"; cases "snd (make_request srv t GET ''/team/list'' None)")
     (auto dest!: make_request_trace split: if_splits)

lemma create_team_trace:
  "create_team srv t nm md mb ms = (t', r) \<Longrightarrow>
     t' = t @ [Request POST ''/team/new'' (Some (create_team_data nm md mb ms))]"
  unfolding create_team_def
  by (cases "make_request srv t POST ''/team/new'' (Some (create_team_data nm md mb ms))";
      cases "snd (make_request srv t POST ''/team/new'' (Some (create_team_data nm md mb ms)))")
     (auto dest!: make_request_trace split: if_splits)

lemma update_team_trace:
  "update_team srv t tid nm md mb ms = (t', r) \<Longrightarrow>
     t' = t @ [Request POST ''/team/update'' (Some (JObj (update_team_fields tid nm md mb ms)))]"
  unfolding update_team_def
  by (cases "make_request srv t POST ''/team/update'' (Some (JObj (update_team_fields tid nm md mb ms)))";
      cases "snd (make_request srv t POST ''/team/update'' (Some (JObj (update_team_fields tid nm md mb ms))))")
     (auto dest!: make_request_trace split: if_splits)

lemma delete_team_trace:
  "delete_team srv t tid = (t', r) \<Longrightarrow>
     t' = t @ [Request POST ''/team/delete'' (Some (JObj [(''team_ids'', JList [tid])]))]"
  unfolding delete_team_def
  by (cases "make_request srv t POST ''/team/delete'' (Some (JObj [(''team_ids'', JList [tid])]))";
      cases "snd (make_request srv t POST ''/team/delete'' (Some (JObj [(''team_ids'', JList [tid])])))")
     (auto dest!: make_request_trace split: if_splits)

lemma resolve_team_reads:
  "resolve_team srv p = (t0, r) \<Longrightarrow> team_actions t0 = []"
  unfolding resolve_team_def
  by (auto split: if_splits dest!: get_team_trace get_team_by_name_trace)

lemma team_decision_table:
  assumes live: "\<not> check_mode p"
    and res: "resolve_team srv p = (t0, Inr existing)"
    and run: "main_team srv p = (t, Inr res)"
  shows "team_actions t =
           performed (decision_table (state p) (truthy existing)
             (team_needs_update existing (name p) (metadata p) (max_budget p) (models p) = Inr True))
       \<and> changed res =
           (decision_table (state p) (truthy existing)
             (team_needs_update existing (name p) (metadata p) (max_budget p) (models p) = Inr True) \<noteq> None)"
proof -
  note rd = resolve_team_reads [OF res]
  show ?thesis
  proof (cases "state p")
    case Present
    show ?thesis
    proof (cases "truthy existing")
      case False
      obtain t1 r1 where c: "create_team srv t0 (name p) (metadata p) (max_budget p) (models p) = (t1, r1)"
        by (cases "create_team srv t0 (name p) (metadata p) (max_budget p) (models p)")
      from run Present False live c res have "t = t1" "changed res"
        by (cases r1; auto simp: main_team_def)+
      with create_team_trace [OF c] rd Present False show ?thesis
        by (simp add: decision_table_def performed_def)
    next
      case True
      show ?thesis
      proof (cases "team_needs_update existing (name p) (metadata p) (max_budget p) (models p)")
        case (Inl e)
        with run Present True res show ?thesis by (simp add: main_team_def)
      next
        case (Inr upd)
        show ?thesis
        proof (cases upd)
          case False
          with run Present True res Inr rd show ?thesis
            by (auto simp: main_team_def decision_table_def performed_def)
        next
          case upd: True
          show ?thesis
          proof (cases "py_get existing ''team_id''")
            case (Inl e)
            with run Present True res Inr upd live show ?thesis by (simp add: main_team_def)
          next
            case tid: (Inr tid)
            obtain t1 r1 where c: "update_team srv t0 tid (name p) (metadata p) (max_budget p) (models p) = (t1, r1)"
              by (cases "update_team srv t0 tid (name p) (metadata p) (max_budget p) (models p)")
            from run Present True res Inr upd live tid c have "t = t1" "changed res"
              by (cases r1; auto simp: main_team_def)+
            with update_team_trace [OF c] rd Present True Inr upd show ?thesis
              by (simp add: decision_table_def performed_def)
          qed
        qed
      qed
    qed
  next
    case Absent
    show ?thesis
    proof (cases "truthy existing")
      case False
      with run Absent res rd show ?thesis
        by (auto simp: main_team_def decision_table_def performed_def)
    next
      case True
      show ?thesis
      proof (cases "py_get existing ''team_id''")
        case (Inl e)
        with run Absent True res live show ?thesis by (simp add: main_team_def)
      next
        case tid: (Inr tid)
        obtain t1 r1 where c: "delete_team srv t0 tid = (t1, r1)"
          by (cases "delete_team srv t0 tid")
        from run Absent True res live tid c have "t = t1" "changed res"
          by (cases r1; auto simp: main_team_def)+
        with delete_team_trace [OF c] rd Absent True show ?thesis
          by (simp add: decision_table_def performed_def)
      qed
    qed
  qed
qed


lemma get_key_trace: "get_key srv t kid = (t', r) \<Longrightarrow> t' = t @ [Request GET (''/key/info?key='' @ kid) None]"
  unfolding get_key_def
  by (cases "make_request srv t GET (''/key/info?key='' @ kid) None";
      cases "snd (make_request srv t GET (''/key/info?key='' @ kid) None)")
     (auto dest!: make_request_trace split: if_splits)

lemma get_key_by_alias_trace:
  "get_key_by_alias srv t alias = (t', r) \<Longrightarrow> t' = t @ [Request GET ''/key/list'' None]"
  unfolding get_key_by_alias_def
  by (cases "make_request srv t GET ''/key/list'' None"; cases "snd (make_request srv t GET ''/key/list'' None)")
     (auto dest!: make_request_trace split: if_splits)

lemma create_key_trace:
  "create_key srv t p = (t', r) \<Longrightarrow> t' = t @ [Request POST ''/key/generate'' (Some (create_key_data p))]"
  unfolding create_key_def
  by (cases "make_request srv t POST ''/key/generate'' (Some (create_key_data p))";
      cases "snd (make_request srv t POST ''/key/generate'' (Some (create_key_data p)))")
     (auto dest!: make_request_trace split: if_splits)

lemma update_key_trace:
  "update_key srv t kid p = (t', r) \<Longrightarrow>
     t' = t @ [Request POST ''/key/update'' (Some (JObj (update_key_fields kid p)))]"
  unfolding update_key_def
  by (cases "make_request srv t POST ''/key/update'' (Some (JObj (update_key_fields kid p)))";
      cases "snd (make_request srv t POST ''/key/update'' (Some (JObj (update_key_fields kid p))))")
     (auto dest!: make_request_trace split: if_splits)

lemma delete_key_trace:
  "delete_key srv t kid = (t', r) \<Longrightarrow>
     t' = t @ [Request POST ''/key/delete'' (Some (JObj [(''keys'', JList [kid])]))]"
  unfolding delete_key_def
  by (cases "make_request srv t POST ''/key/delete'' (Some (JObj [(''keys'', JList [kid])]))";
      cases "snd (make_request srv t POST ''/key/delete'' (Some (JObj [(''keys'', JList [kid])])))")
     (auto dest!: make_request_trace split: if_splits)

lemma resolve_key_reads:
  "resolve_key srv p = (t0, r) \<Longrightarrow> key_actions t0 = []"
  unfolding resolve_key_def
  by (auto split: if_splits dest!: get_key_trace get_key_by_alias_trace)

lemma key_decision_table:
  assumes live: "\<not> key_check_mode p"
    and res: "resolve_key srv p = (t0, Inr existing)"
    and run: "main_key srv p = (t, Inr res)"
  shows "key_actions t =
           performed (decision_table (key_state p) (truthy existing) (key_needs_update existing p = Inr True))
       \<and> changed res =
           (decision_table (key_state p) (truthy existing) (key_needs_update existing p = Inr True) \<noteq> None)"
proof -
  note rd = resolve_key_reads [OF res]
  show ?thesis
  proof (cases "key_state p")
    case Present
    show ?thesis
    proof (cases "truthy existing")
      case False
      obtain t1 r1 where c: "create_key srv t0 p = (t1, r1)"
        by (cases "create_key srv t0 p")
      from run Present False live c res have "t = t1" "changed res"
        by (cases r1; auto simp: main_key_def)+
      with create_key_trace [OF c] rd Present False show ?thesis
        by (simp add: decision_table_def performed_def)
    next
      case True
      show ?thesis
      proof (cases "key_needs_update existing p")
        case (Inl e)
        with run Present True res show ?thesis by (simp add: main_key_def)
      next
        case (Inr upd)
        show ?thesis
        proof (cases upd)
          case False
          with run Present True res Inr rd show ?thesis
            by (auto simp: main_key_def decision_table_def performed_def)
        next
          case upd: True
          show ?thesis
          proof (cases "current_key_id existing")
            case (Inl e)
            with run Present True res Inr upd live show ?thesis by (simp add: main_key_def)
          next
            case kid: (Inr kid)
            obtain t1 r1 where c: "update_key srv t0 kid p = (t1, r1)"
              by (cases "update_key srv t0 kid p")
            from run Present True res Inr upd live kid c have "t = t1" "changed res"
              by (cases r1; auto simp: main_key_def)+
            with update_key_trace [OF c] rd Present True Inr upd show ?thesis
              by (simp add: decision_table_def performed_def)
          qed
        qed
      qed
    qed
  next
    case Absent
    show ?thesis
    proof (cases "truthy existing")
      case False
      with run Absent res rd show ?thesis
        by (auto simp: main_key_def decision_table_def performed_def)
    next
      case True
      show ?thesis
      proof (cases "current_key_id existing")
        case (Inl e)
        with run Absent True res live show ?thesis by (simp add: main_key_def)
      next
        case kid: (Inr kid)
        obtain t1 r1 where c: "delete_key srv t0 kid = (t1, r1)"
          by (cases "delete_key srv t0 kid")
        from run Absent True res live kid c have "t = t1" "changed res"
          by (cases r1; auto simp: main_key_def)+
        with delete_key_trace [OF c] rd Absent True show ?thesis
          by (simp add: decision_table_def performed_def)
      qed
    qed
  qed
qed

lemma set_differs_iff: "set_differs cur ms \<longleftrightarrow> set cur \<noteq> set (map JStr ms)"
  by (auto simp: set_differs_def list_all_iff)

lemma str_differs_declared:
  "str_differs (JObj kvs) k s = Inr (list_ex (field_differs (JObj kvs)) (declared_str k s))"
  by (simp add: str_differs_def declared_str_def py_get_def member_of_def)

lemma val_differs_declared:
  "val_differs (JObj kvs) k x = Inr (list_ex (field_differs (JObj kvs)) (declared_val k x))"
  by (cases x) (simp_all add: val_differs_def declared_val_def py_get_def member_of_def)

lemma models_differ_declared:
  assumes "well_formed (JObj kvs)"
  shows "models_differ (JObj kvs) ms = Inr (list_ex (field_differs (JObj kvs)) (declared_models ms))"
proof (cases ms)
  case None
  then show ?thesis by (simp add: models_differ_def declared_models_def)
next
  case (Some xs)
  show ?thesis
  proof (cases "map_of kvs ''models''")
    case None
    with Some show ?thesis
      by (simp add: models_differ_def declared_models_def py_set_def set_differs_iff listed_def member_of_def)
  next
    case (Some v)
    with assms obtain ys where v: "v = JList ys" and h: "list_all hashable ys"
      by (cases v) (auto simp: well_formed_def)
    with Some \<open>ms = Some xs\<close> show ?thesis
      by (simp add: models_differ_def declared_models_def py_set_def set_differs_iff listed_def member_of_def)
  qed
qed

lemma team_needs_update_declared:
  assumes "well_formed (JObj kvs)"
  shows "team_needs_update (JObj kvs) (name p) (metadata p) (max_budget p) (models p)
           = Inr (some_declared_field_differs (JObj kvs) (team_declared p))"
  by (simp add: team_needs_update_def str_differs_declared val_differs_declared
      models_differ_declared [OF assms] some_declared_field_differs_def team_declared_def)

lemma key_needs_update_declared:
  assumes "well_formed (JObj kvs)"
  shows "key_needs_update (JObj kvs) p = Inr (some_declared_field_differs (JObj kvs) (key_declared p))"
  by (simp add: key_needs_update_def str_differs_declared val_differs_declared
      models_differ_declared [OF assms] some_declared_field_differs_def key_declared_def)

lemma well_formed_dict: "well_formed existing \<Longrightarrow> \<exists>kvs. existing = JObj kvs"
  by (cases existing) (simp_all add: well_formed_def)

lemma team_table_on_declared_fields:
  assumes "\<not> check_mode p" and "resolve_team srv p = (t0, Inr existing)"
    and "truthy existing \<longrightarrow> well_formed existing" and "main_team srv p = (t, Inr res)"
  shows "team_actions t =
           performed (decision_table (state p) (truthy existing)
             (some_declared_field_differs existing (team_declared p)))
       \<and> changed res =
           (decision_table (state p) (truthy existing)
             (some_declared_field_differs existing (team_declared p)) \<noteq> None)"
proof (cases "truthy existing")
  case True
  with assms(3) obtain kvs where "existing = JObj kvs" "well_formed (JObj kvs)"
    using well_formed_dict by blast
  with team_decision_table [OF assms(1,2,4)] team_needs_update_declared [of kvs p] show ?thesis
    by simp
next
  case False
  with team_decision_table [OF assms(1,2,4)] show ?thesis
    by (simp add: decision_table_def)
qed

lemma key_table_on_declared_fields:
  assumes "\<not> key_check_mode p" and "resolve_key srv p = (t0, Inr existing)"
    and "truthy existing \<longrightarrow> well_formed existing" and "main_key srv p = (t, Inr res)"
  shows "key_actions t =
           performed (decision_table (key_state p) (truthy existing)
             (some_declared_field_differs existing (key_declared p)))
       \<and> changed res =
           (decision_table (key_state p) (truthy existing)
             (some_declared_field_differs existing (key_declared p)) \<noteq> None)"
proof (cases "truthy existing")
  case True
  with assms(3) obtain kvs where "existing = JObj kvs" "well_formed (JObj kvs)"
    using well_formed_dict by blast
  with key_decision_table [OF assms(1,2,4)] key_needs_update_declared [of kvs p] show ?thesis
    by simp
next
  case False
  with key_decision_table [OF assms(1,2,4)] show ?thesis
    by (simp add: decision_table_def)
qed

text \<open>
  C1. On \<^verbatim>\<open>module.params\<close> the team and key modules follow the decision table, with
  needs-update read as "some field the declaration sets differs" (lemmas
  \<open>team_table_on_declared_fields\<close>, \<open>key_table_on_declared_fields\<close>). On a playbook they do
  not: metadata left out arrives as \<^verbatim>\<open>{}\<close> and is compared like a declared field. The team
  \<^verbatim>\<open>t1\<close> declared with the name and the models the server holds, and the key
  \<^verbatim>\<open>key-456\<close> declared with the budget the server holds, have no declared field that
  differs, so the table decides for no action; each run sends an update and reports
  \<open>changed\<close>.
\<close>

theorem decision_table_broken_by_metadata_default:
  "team_declared t1_as_is = [Scalar ''team_alias'' (JStr ''team-x''), Listed ''models'' [''gpt-3.5'', ''gpt-4'']]
   \<and> \<not> some_declared_field_differs team_x (team_declared t1_as_is)
   \<and> decision_table (state t1_as_is) (truthy team_x)
         (some_declared_field_differs team_x (team_declared t1_as_is)) = None
   \<and> run_team team_server t1_as_is =
       ([Request GET ''/team/t1'' None,
         Request POST ''/team/update''
           (Some (JObj [(''team_id'', JStr ''t1''), (''team_alias'', JStr ''team-x''),
                        (''metadata'', JObj []), (''models'', JList [JStr ''gpt-3.5'', JStr ''gpt-4''])]))],
        Inr \<lparr>changed = True, resource = JObj [(''team_id'', JStr ''t1'')],
             message = ''Team aggiornato con successo''\<rparr>)
   \<and> key_declared key_456_as_is = [Scalar ''max_budget'' (JNum 500)]
   \<and> \<not> some_declared_field_differs key_456 (key_declared key_456_as_is)
   \<and> decision_table (key_state key_456_as_is) (truthy key_456)
         (some_declared_field_differs key_456 (key_declared key_456_as_is)) = None
   \<and> run_key key_server key_456_as_is =
       ([Request GET ''/key/info?key=key-456'' None,
         Request POST ''/key/update''
           (Some (JObj [(''key'', JStr ''key-456''), (''max_budget'', JNum 500), (''metadata'', JObj [])]))],
        Inr \<lparr>changed = True, resource = JObj [(''key'', JStr ''key-456'')],
             message = ''Virtual key aggiornata con successo''\<rparr>)"
  by code_simp

theorem decision_table_broken_by_metadata_default_witness:
  "\<not> some_declared_field_differs team_x (team_declared t1_as_is)
   \<and> team_actions (fst (run_team team_server t1_as_is)) = [Update]
   \<and> \<not> some_declared_field_differs key_456 (key_declared key_456_as_is)
   \<and> key_actions (fst (run_key key_server key_456_as_is)) = [Update]"
proof -
  note h = decision_table_broken_by_metadata_default
  have a: "\<not> some_declared_field_differs team_x (team_declared t1_as_is)"
    using h by blast
  have b: "team_actions (fst (run_team team_server t1_as_is)) = [Update]"
    using h by simp
  have c: "\<not> some_declared_field_differs key_456 (key_declared key_456_as_is)"
    using h by blast
  have d: "key_actions (fst (run_key key_server key_456_as_is)) = [Update]"
    using h by simp
  from a b c d show ?thesis
    by blast
qed

lemma model_actions_simps [simp]:
  "model_actions [] = []"
  "model_actions (t @ u) = model_actions t @ model_actions u"
  "model_actions (r # t) = (case model_action r of None \<Rightarrow> model_actions t | Some a \<Rightarrow> a # model_actions t)"
  by (simp_all add: model_actions_def map_filter_def split: option.splits)

section \<open>Check mode\<close>

text \<open>
  C2. The endpoint and model modules declare \<^verbatim>\<open>supports_check_mode=True\<close> and never read
  \<^verbatim>\<open>module.check_mode\<close>: in check mode, for a resource the listing does not hold, each
  sends its \<^verbatim>\<open>POST /model/new\<close> all the same. The team and key modules do skip their
  writes (lemmas \<open>team_check_mode_no_writes\<close>, \<open>key_check_mode_no_writes\<close>) and report
  the flag of the live run (\<open>team_check_mode_same_flag\<close>, \<open>key_check_mode_same_flag\<close>).
\<close>

theorem check_mode_ignored_by_endpoint_and_model:
  "endpoint_check_mode (gpu_1\<lparr>endpoint_check_mode := True\<rparr>)
   \<and> main_endpoint (listing_of []) (gpu_1\<lparr>endpoint_check_mode := True\<rparr>) =
       ([Request GET ''/model/info'' None,
         Request POST ''/model/new'' (Some gpu_1_model),
         Request GET ''/model/info'' None],
        Inr \<lparr>changed = True, resource = JNull,
             message = ''Endpoint '' @ quoted ''gpu-1'' @ '' creato con successo''\<rparr>)
   \<and> model_check_mode (gpt_4\<lparr>model_check_mode := True\<rparr>)
   \<and> main_model (listing_of []) (gpt_4\<lparr>model_check_mode := True\<rparr>) =
       ([Request GET ''/model/info'' None,
         Request POST ''/model/new'' (Some gpt_4_model),
         Request GET ''/model/info'' None],
        Inr \<lparr>changed = True, resource = JNull,
             message = ''Modello '' @ quoted ''gpt-4'' @ '' creato con successo''\<rparr>)"
  by code_simp

theorem check_mode_ignored_by_endpoint_and_model_witness:
  "model_actions (fst (main_endpoint (listing_of []) (gpu_1\<lparr>endpoint_check_mode := True\<rparr>))) = [Create]
   \<and> model_actions (fst (main_model (listing_of []) (gpt_4\<lparr>model_check_mode := True\<rparr>))) = [Create]"
  using check_mode_ignored_by_endpoint_and_model
  by simp

lemma team_check_mode_no_writes:
  assumes "check_mode p"
  shows "team_actions (fst (main_team srv p)) = []"
proof -
  obtain t0 r0 where res: "resolve_team srv p = (t0, r0)"
    by (cases "resolve_team srv p")
  note rd = resolve_team_reads [OF res]
  show ?thesis
  proof (cases r0)
    case (Inl e)
    with res rd show ?thesis by (simp add: main_team_def)
  next
    case (Inr existing)
    with res rd assms show ?thesis
      by (cases "team_needs_update existing (name p) (metadata p) (max_budget p) (models p)")
         (auto simp: main_team_def)
  qed
qed

lemma key_check_mode_no_writes:
  assumes "key_check_mode p"
  shows "key_actions (fst (main_key srv p)) = []"
proof -
  obtain t0 r0 where res: "resolve_key srv p = (t0, r0)"
    by (cases "resolve_key srv p")
  note rd = resolve_key_reads [OF res]
  show ?thesis
  proof (cases r0)
    case (Inl e)
    with res rd show ?thesis by (simp add: main_key_def)
  next
    case (Inr existing)
    with res rd assms show ?thesis
      by (cases "key_needs_update existing p") (auto simp: main_key_def)
  qed
qed


lemma team_check_mode_same_flag:
  assumes "main_team srv (p\<lparr>check_mode := False\<rparr>) = (t, Inr res)"
  shows "\<exists>t' res'. main_team srv (p\<lparr>check_mode := True\<rparr>) = (t', Inr res') \<and> changed res' = changed res"
proof -
  have same: "resolve_team srv (p\<lparr>check_mode := b\<rparr>) = resolve_team srv p" for b
    by (simp add: resolve_team_def)
  obtain t0 r0 where res: "resolve_team srv p = (t0, r0)"
    by (cases "resolve_team srv p")
  show ?thesis
  proof (cases r0)
    case (Inl e)
    with res same assms show ?thesis by (simp add: main_team_def)
  next
    case (Inr existing)
    show ?thesis
    proof (cases "team_needs_update existing (name p) (metadata p) (max_budget p) (models p)")
      case (Inl e)
      with Inr res same assms show ?thesis
        by (auto simp: main_team_def bindT_def split: if_splits prod.splits sum.splits)
    next
      case upd: (Inr upd)
      with Inr res same assms show ?thesis
        by (auto simp: main_team_def bindT_def split: if_splits prod.splits sum.splits)
    qed
  qed
qed

lemma key_check_mode_same_flag:
  assumes "main_key srv (p\<lparr>key_check_mode := False\<rparr>) = (t, Inr res)"
  shows "\<exists>t' res'. main_key srv (p\<lparr>key_check_mode := True\<rparr>) = (t', Inr res') \<and> changed res' = changed res"
proof -
  have same: "resolve_key srv (p\<lparr>key_check_mode := b\<rparr>) = resolve_key srv p" for b
    by (simp add: resolve_key_def)
  have same_upd: "key_needs_update existing (p\<lparr>key_check_mode := b\<rparr>) = key_needs_update existing p" for b existing
    by (simp add: key_needs_update_def)
  obtain t0 r0 where res: "resolve_key srv p = (t0, r0)"
    by (cases "resolve_key srv p")
  show ?thesis
  proof (cases r0)
    case (Inl e)
    with res same assms show ?thesis by (simp add: main_key_def)
  next
    case (Inr existing)
    show ?thesis
    proof (cases "key_needs_update existing p")
      case (Inl e)
      with Inr res same same_upd assms show ?thesis
        by (auto simp: main_key_def bindT_def split: if_splits prod.splits sum.splits)
    next
      case upd: (Inr upd)
      with Inr res same same_upd assms show ?thesis
        by (auto simp: main_key_def bindT_def split: if_splits prod.splits sum.splits)
    qed
  qed
qed


section \<open>Deleting an endpoint or a model\<close>

lemma get_endpoints_trace:
  "get_endpoints srv t = (t', r) \<Longrightarrow> t' = t @ [Request GET ''/model/info'' None]"
  unfolding get_endpoints_def
  by (cases "make_request srv t GET ''/model/info'' None"; cases "snd (make_request srv t GET ''/model/info'' None)")
     (auto dest!: make_request_trace split: if_splits)

lemma get_endpoint_trace:
  "get_endpoint srv t nm = (t', r) \<Longrightarrow> t' = t @ [Request GET ''/model/info'' None]"
  unfolding get_endpoint_def
  by (cases "get_endpoints srv t"; cases "snd (get_endpoints srv t)")
     (auto dest!: get_endpoints_trace)

lemma get_models_trace:
  "get_models srv t = (t', r) \<Longrightarrow> t' = t @ [Request GET ''/model/info'' None]"
  unfolding get_models_def
  by (cases "make_request srv t GET ''/model/info'' None"; cases "snd (make_request srv t GET ''/model/info'' None)")
     (auto dest!: make_request_trace split: if_splits)

lemma get_model_trace:
  "get_model srv t nm = (t', r) \<Longrightarrow> t' = t @ [Request GET ''/model/info'' None]"
  unfolding get_model_def
  by (cases "get_models srv t"; cases "snd (get_models srv t)")
     (auto dest!: get_models_trace)

text \<open>
  C4, as stated, fails: for an endpoint that the listing holds, the run with intent absent
  does not exit normally with \<open>changed = False\<close>; \<^verbatim>\<open>delete_endpoint\<close> calls
  \<^verbatim>\<open>fail_json\<close> and the module fails.
\<close>

theorem unsupported_delete_counterexample:
  "main_endpoint (listing_of [gpu_1_model]) (gpu_1\<lparr>endpoint_state := Absent\<rparr>) =
     ([Request GET ''/model/info'' None], Inl (Fail_json delete_endpoint_msg []))"
  by code_simp

text \<open>
  C4, amended. For endpoints and models, intent absent on a resource that the listing holds
  sends nothing but the listing request, in check mode or not, and ends the run through
  \<^verbatim>\<open>fail_json\<close> with the fixed message that tells to remove the entry from
  \<^verbatim>\<open>config.yaml\<close>; no result is reported, so no \<open>changed\<close> flag either.
\<close>

theorem unsupported_delete_fails:
  "(endpoint_state p = Absent \<and> get_endpoint srv [] (endpoint_name p) = (t0, Inr existing) \<and> truthy existing \<longrightarrow>
      main_endpoint srv p = ([Request GET ''/model/info'' None], Inl (Fail_json delete_endpoint_msg [])))
   \<and> (model_state mp = Absent \<and> get_model msrv [] (model_name mp) = (mt0, Inr mexisting) \<and> truthy mexisting \<longrightarrow>
      main_model msrv mp = ([Request GET ''/model/info'' None], Inl (Fail_json delete_model_msg [])))"
  by (auto simp: main_endpoint_def main_model_def delete_endpoint_def delete_model_def catch_all_def
      dest!: get_endpoint_trace get_model_trace)

theorem unsupported_delete_fails_witness:
  "endpoint_state (gpu_1\<lparr>endpoint_state := Absent\<rparr>) = Absent
   \<and> truthy (JObj [(''endpoint_name'', JStr ''gpu-1''), (''api_base'', JStr ''http://h:8000''),
                    (''provider'', JStr ''openai''),
                    (''metadata'', JObj [(''endpoint_type'', JStr ''managed_endpoint'')])])
   \<and> main_endpoint (listing_of [gpu_1_model]) (gpu_1\<lparr>endpoint_state := Absent\<rparr>) =
       ([Request GET ''/model/info'' None], Inl (Fail_json delete_endpoint_msg []))
   \<and> model_state (gpt_4\<lparr>model_state := Absent\<rparr>) = Absent
   \<and> truthy gpt_4_model
   \<and> main_model (listing_of [gpt_4_model]) (gpt_4\<lparr>model_state := Absent\<rparr>) =
       ([Request GET ''/model/info'' None], Inl (Fail_json delete_model_msg []))"
proof -
  let ?e = "JObj [(''endpoint_name'', JStr ''gpu-1''), (''api_base'', JStr ''http://h:8000''),
                  (''provider'', JStr ''openai''),
                  (''metadata'', JObj [(''endpoint_type'', JStr ''managed_endpoint'')])]"
  have a: "endpoint_state (gpu_1\<lparr>endpoint_state := Absent\<rparr>) = Absent"
    by simp
  have b: "get_endpoint (listing_of [gpu_1_model]) [] (endpoint_name (gpu_1\<lparr>endpoint_state := Absent\<rparr>))
             = ([Request GET ''/model/info'' None], Inr ?e)"
    by code_simp
  have c: "truthy ?e"
    by simp
  have d: "model_state (gpt_4\<lparr>model_state := Absent\<rparr>) = Absent"
    by simp
  have e: "get_model (listing_of [gpt_4_model]) [] (model_name (gpt_4\<lparr>model_state := Absent\<rparr>))
             = ([Request GET ''/model/info'' None], Inr gpt_4_model)"
    by code_simp
  have f: "truthy gpt_4_model"
    by code_simp
  from unsupported_delete_fails [where p = "gpu_1\<lparr>endpoint_state := Absent\<rparr>" and srv = "listing_of [gpu_1_model]"
      and existing = ?e and ?t0.0 = "[Request GET ''/model/info'' None]"
      and mp = "gpt_4\<lparr>model_state := Absent\<rparr>" and msrv = "listing_of [gpt_4_model]"
      and mexisting = gpt_4_model and ?mt0.0 = "[Request GET ''/model/info'' None]"]
    a b c d e f
  show ?thesis
    by blast
qed

section \<open>Identity resolution\<close>

text \<open>
  C6, as stated, fails: the declaration gives the id of one team and the name of another,
  and the lookup returns the team of the id without an error.
\<close>

theorem identity_conflict_counterexample:
  "resolve_team two_team_server t1_named_team_y = ([Request GET ''/team/t1'' None], Inr team_x)
   \<and> get_team two_team_server [] ''t1'' = ([Request GET ''/team/t1'' None], Inr team_x)
   \<and> get_team_by_name two_team_server [] ''team-y'' = ([Request GET ''/team/list'' None], Inr team_y)
   \<and> team_x \<noteq> team_y"
  by code_simp

text \<open>
  C6, amended. When a stable id is given, teams and keys are looked up by that id alone: the
  result is that of the point lookup, it is the same whatever name or alias is declared
  beside the id, and the only request is the \<^verbatim>\<open>GET\<close> of the point lookup, so the listing
  is never consulted and a disagreement of the two is never detected.
\<close>

theorem stable_id_takes_precedence:
  "(str_truthy (team_id p) \<longrightarrow>
      resolve_team srv p = get_team srv [] (the (team_id p))
      \<and> resolve_team srv (p\<lparr>name := n\<rparr>) = resolve_team srv p
      \<and> fst (resolve_team srv p) = [Request GET (''/team/'' @ the (team_id p)) None])
   \<and> (str_truthy (key_id kp) \<longrightarrow>
      resolve_key ksrv kp = get_key ksrv [] (the (key_id kp))
      \<and> resolve_key ksrv (kp\<lparr>key_alias := a\<rparr>) = resolve_key ksrv kp
      \<and> fst (resolve_key ksrv kp) = [Request GET (''/key/info?key='' @ the (key_id kp)) None])"
proof -
  have "fst (get_team srv [] tid) = [Request GET (''/team/'' @ tid) None]" for tid
    using get_team_trace [of srv "[]" tid] by (cases "get_team srv [] tid") simp
  moreover have "fst (get_key ksrv [] kid) = [Request GET (''/key/info?key='' @ kid) None]" for kid
    using get_key_trace [of ksrv "[]" kid] by (cases "get_key ksrv [] kid") simp
  ultimately show ?thesis
    by (simp add: resolve_team_def resolve_key_def)
qed

theorem stable_id_takes_precedence_witness:
  "str_truthy (team_id t1_named_team_y)
   \<and> resolve_team two_team_server (t1_named_team_y\<lparr>name := None\<rparr>)
       = resolve_team two_team_server t1_named_team_y
   \<and> fst (resolve_team two_team_server t1_named_team_y) = [Request GET ''/team/t1'' None]
   \<and> str_truthy (key_id key_456_absent)
   \<and> resolve_key key_server (key_456_absent\<lparr>key_alias := Some ''another-key''\<rparr>)
       = resolve_key key_server key_456_absent
   \<and> fst (resolve_key key_server key_456_absent) = [Request GET ''/key/info?key=key-456'' None]"
proof -
  have a: "str_truthy (team_id t1_named_team_y)"
    by code_simp
  have b: "the (team_id t1_named_team_y) = ''t1''"
    by code_simp
  have c: "str_truthy (key_id key_456_absent)"
    by code_simp
  have d: "the (key_id key_456_absent) = ''key-456''"
    by code_simp
  have e: "fst (get_team two_team_server [] ''t1'') = [Request GET ''/team/t1'' None]"
    by code_simp
  have f: "fst (get_key key_server [] ''key-456'') = [Request GET ''/key/info?key=key-456'' None]"
    by code_simp
  from stable_id_takes_precedence [where p = t1_named_team_y and srv = two_team_server and n = None
      and kp = key_456_absent and ksrv = key_server and a = "Some ''another-key''"]
    a b c d e f
  show ?thesis
    by simp
qed

lemma find_team_first_match:
  "list_all is_dict xs \<Longrightarrow>
     find_team nm xs = Inr (first_match (entry_matches ''team_alias'' ''team_name'' nm) xs)"
proof (induction xs)
  case Nil
  then show ?case by (simp add: first_match_def)
next
  case (Cons e xs)
  then obtain kvs where e: "e = JObj kvs"
    by (cases e) auto
  with Cons show ?case
    by (auto simp: first_match_def entry_matches_def py_get_def split: option.splits)
qed

lemma find_key_first_match:
  "find_key nm xs = Inr (first_match (entry_matches ''key_alias'' ''key_name'' nm) xs)"
proof (induction xs)
  case Nil
  then show ?case by (simp add: first_match_def)
next
  case (Cons e xs)
  then show ?case
    by (cases e) (auto simp: first_match_def entry_matches_def py_get_def split: option.splits)
qed

lemma get_team_by_name_replying:
  "get_team_by_name (replying d) t nm =
     (t @ [Request GET ''/team/list'' None],
      bindE (team_listing d) (\<lambda>teams. bindE (py_iter teams) (find_team nm)))"
  by (simp add: get_team_by_name_def make_request_def replying_def ok_def response_json_def)

lemma get_key_by_alias_replying:
  "get_key_by_alias (replying d) t nm =
     (t @ [Request GET ''/key/list'' None],
      bindE (key_listing \<lparr>status_code = 200, body_json = Some d, body_text = []\<rparr>)
        (\<lambda>keys. bindE (py_iter keys) (find_key nm)))"
  by (simp add: get_key_by_alias_def make_request_def replying_def ok_def)

text \<open>
  C7, as stated, fails: a listing wrapped under a member other than \<^verbatim>\<open>keys\<close> (or
  \<^verbatim>\<open>teams\<close>) is neither accepted nor reported as an error; the entry that the bare list
  yields is reported as not found.
\<close>

theorem listing_shape_counterexample:
  "snd (get_key_by_alias (replying (JList [key_456])) [] ''ds-team-prod-key'') = Inr key_456
   \<and> snd (get_key_by_alias (replying (JObj [(''items'', JList [key_456])])) [] ''ds-team-prod-key'') = Inr JNull
   \<and> snd (get_team_by_name (replying (JList [team_x])) [] ''team-x'') = Inr team_x
   \<and> snd (get_team_by_name (replying (JObj [(''items'', JList [team_x])])) [] ''team-x'') = Inr JNull"
  by code_simp

text \<open>
  C7, amended. A listing is accepted as a bare list and as an object holding the list under
  \<^verbatim>\<open>teams\<close> (for teams) or \<^verbatim>\<open>keys\<close> (for keys), with the same result: the first entry
  whose alias or name member equals the name, or \<^verbatim>\<open>None\<close> (for teams when every entry is a
  dict, for keys always, entries that are not dicts being passed over). A response that
  is neither a list nor an object ends the lookup with an error: an uncaught AttributeError
  for teams, \<^verbatim>\<open>fail_json\<close> for keys. An object without the member counts as an empty
  listing: not found, no error.
\<close>

theorem listing_shapes:
  "(map_of kvs ''teams'' = Some (JList xs) \<longrightarrow>
      snd (get_team_by_name (replying (JObj kvs)) t nm) = snd (get_team_by_name (replying (JList xs)) t nm))
   \<and> (list_all is_dict xs \<longrightarrow>
      snd (get_team_by_name (replying (JList xs)) t nm)
        = Inr (first_match (entry_matches ''team_alias'' ''team_name'' nm) xs))
   \<and> (map_of kws ''keys'' = Some (JList ys) \<longrightarrow>
      snd (get_key_by_alias (replying (JObj kws)) t nm) = snd (get_key_by_alias (replying (JList ys)) t nm))
   \<and> snd (get_key_by_alias (replying (JList ys)) t nm)
        = Inr (first_match (entry_matches ''key_alias'' ''key_name'' nm) ys)
   \<and> (\<not> is_list d \<and> \<not> is_dict d \<longrightarrow>
      snd (get_team_by_name (replying d) t nm) = Inl (Raised AttributeError)
      \<and> snd (get_key_by_alias (replying d) t nm)
          = Inl (Fail_json ''Risposta API non valida per /key/list: {}'' [Value d]))
   \<and> (map_of kvs' ''teams'' = None \<longrightarrow> snd (get_team_by_name (replying (JObj kvs')) t nm) = Inr JNull)
   \<and> (map_of kws' ''keys'' = None \<longrightarrow> snd (get_key_by_alias (replying (JObj kws')) t nm) = Inr JNull)"
proof -
  have other: "\<not> is_list d \<Longrightarrow> \<not> is_dict d \<Longrightarrow>
      team_listing d = Inl (Raised AttributeError)
      \<and> key_listing \<lparr>status_code = 200, body_json = Some d, body_text = []\<rparr>
          = Inl (Fail_json ''Risposta API non valida per /key/list: {}'' [Value d])"
    by (cases d) (simp_all add: team_listing_def key_listing_def)
  show ?thesis
    using other
    by (auto simp: get_team_by_name_replying get_key_by_alias_replying team_listing_def key_listing_def
        find_team_first_match find_key_first_match first_match_def)
qed

theorem listing_shapes_witness:
  "map_of [(''teams'', JList [team_x, team_y])] ''teams'' = Some (JList [team_x, team_y])
   \<and> list_all is_dict [team_x, team_y]
   \<and> snd (get_team_by_name (replying (JObj [(''teams'', JList [team_x, team_y])])) [] ''team-y'') = Inr team_y
   \<and> snd (get_team_by_name (replying (JList [team_x, team_y])) [] ''team-y'') = Inr team_y
   \<and> map_of [(''keys'', JList [key_456])] ''keys'' = Some (JList [key_456])
   \<and> snd (get_key_by_alias (replying (JObj [(''keys'', JList [key_456])])) [] ''team-y'') = Inr JNull
   \<and> \<not> is_list (JStr ''error'') \<and> \<not> is_dict (JStr ''error'')
   \<and> snd (get_team_by_name (replying (JStr ''error'')) [] ''team-y'') = Inl (Raised AttributeError)
   \<and> snd (get_key_by_alias (replying (JStr ''error'')) [] ''team-y'')
        = Inl (Fail_json ''Risposta API non valida per /key/list: {}'' [Value (JStr ''error'')])
   \<and> map_of [(''items'', JList [team_x, team_y])] ''teams'' = None
   \<and> snd (get_team_by_name (replying (JObj [(''items'', JList [team_x, team_y])])) [] ''team-y'') = Inr JNull
   \<and> map_of [(''items'', JList [key_456])] ''keys'' = None
   \<and> snd (get_key_by_alias (replying (JObj [(''items'', JList [key_456])])) [] ''team-y'') = Inr JNull"
proof -
  have a: "map_of [(''teams'', JList [team_x, team_y])] ''teams'' = Some (JList [team_x, team_y])"
    by simp
  have b: "list_all is_dict [team_x, team_y]"
    by (simp add: team_x_def team_y_def)
  have c: "first_match (entry_matches ''team_alias'' ''team_name'' ''team-y'') [team_x, team_y] = team_y"
    by code_simp
  have d: "map_of [(''keys'', JList [key_456])] ''keys'' = Some (JList [key_456])"
    by simp
  have e: "first_match (entry_matches ''key_alias'' ''key_name'' ''team-y'') [key_456] = JNull"
    by code_simp
  have f: "\<not> is_list (JStr ''error'') \<and> \<not> is_dict (JStr ''error'')"
    by simp
  have g: "map_of [(''items'', JList [team_x, team_y])] ''teams'' = None"
    by simp
  have h: "map_of [(''items'', JList [key_456])] ''keys'' = None"
    by simp
  from listing_shapes [where kvs = "[(''teams'', JList [team_x, team_y])]" and xs = "[team_x, team_y]"
      and kws = "[(''keys'', JList [key_456])]" and ys = "[key_456]" and d = "JStr ''error''"
      and kvs' = "[(''items'', JList [team_x, team_y])]" and kws' = "[(''items'', JList [key_456])]"
      and t = "[]" and nm = "''team-y''"]
    a b c d e f g h
  show ?thesis
    by simp
qed

section \<open>A declaration without identity\<close>

text \<open>
  C8, as stated, fails: a key declared present with neither \<^verbatim>\<open>key_id\<close> nor
  \<^verbatim>\<open>key_alias\<close> passes the argument specification, is looked up nowhere, and is created.
\<close>

theorem no_identity_counterexample:
  "run_key key_server anonymous_key =
     ([Request POST ''/key/generate'' (Some (JObj []))],
      Inr \<lparr>changed = True, resource = JObj [(''key'', JStr ''key-456'')],
           message = ''Virtual key creata con successo''\<rparr>)"
  by code_simp

text \<open>
  C8, amended. For virtual keys, a declaration with intent present and neither id nor alias
  is not an error: the module makes no lookup, sends \<^verbatim>\<open>POST /key/generate\<close> with the
  declared fields and reports \<open>changed\<close> when the call succeeds (in check mode it sends
  nothing and reports \<open>changed\<close>). For teams, the argument specification requires the
  name when the intent is present: without it the module fails before any request.
\<close>

theorem key_without_identity_is_created:
  "(key_state a = Present \<and> \<not> str_truthy (key_id a) \<and> \<not> str_truthy (key_alias a) \<and> \<not> key_check_mode a \<longrightarrow>
      run_key srv a =
        bindT (create_key srv [] (a\<lparr>key_metadata := (case key_metadata a of None \<Rightarrow> Some (JObj []) | Some m \<Rightarrow> Some m)\<rparr>))
          (\<lambda>t key. (t, Inr \<lparr>changed = True, resource = key, message = ''Virtual key creata con successo''\<rparr>))
      \<and> fst (run_key srv a) = [Request POST ''/key/generate'' (Some (create_key_data a))])
   \<and> (key_state a = Present \<and> \<not> str_truthy (key_id a) \<and> \<not> str_truthy (key_alias a) \<and> key_check_mode a \<longrightarrow>
      run_key srv a =
        ([], Inr \<lparr>changed = True, resource = JObj [], message = ''Virtual key creata con successo''\<rparr>))
   \<and> (state ta = Present \<and> name ta = None \<longrightarrow>
      run_team tsrv ta =
        ([], Inl (Fail_json ''state is present but all of the following are missing: name'' [])))"
proof -
  let ?p = "a\<lparr>key_metadata := (case key_metadata a of None \<Rightarrow> Some (JObj []) | Some m \<Rightarrow> Some m)\<rparr>"
  have data: "create_key_data ?p = create_key_data a"
    by (cases "key_metadata a") (simp_all add: create_key_data_def opt_truthy_def)
  have tr: "fst (bindT (create_key srv [] ?p) (\<lambda>t key. (t, Inr \<lparr>changed = True, resource = key, message = msg\<rparr>)))
              = [Request POST ''/key/generate'' (Some (create_key_data ?p))]" for msg
    using create_key_trace [of srv "[]" ?p]
    by (cases "create_key srv [] ?p"; cases "snd (create_key srv [] ?p)") auto
  have k: "key_state a = Present \<Longrightarrow> \<not> str_truthy (key_id a) \<Longrightarrow> \<not> str_truthy (key_alias a) \<Longrightarrow>
      run_key srv a =
        (if key_check_mode a
         then ([], Inr \<lparr>changed = True, resource = JObj [], message = ''Virtual key creata con successo''\<rparr>)
         else bindT (create_key srv [] ?p)
                (\<lambda>t key. (t, Inr \<lparr>changed = True, resource = key, message = ''Virtual key creata con successo''\<rparr>)))"
    by (simp add: run_key_def key_module_params_def main_key_def resolve_key_def)
  have t: "state ta = Present \<Longrightarrow> name ta = None \<Longrightarrow>
      run_team tsrv ta = ([], Inl (Fail_json ''state is present but all of the following are missing: name'' []))"
    by (simp add: run_team_def team_module_params_def)
  show ?thesis
    using k t tr data by simp
qed

theorem key_without_identity_is_created_witness:
  "key_state anonymous_key = Present \<and> \<not> str_truthy (key_id anonymous_key)
   \<and> \<not> str_truthy (key_alias anonymous_key) \<and> \<not> key_check_mode anonymous_key
   \<and> fst (run_key key_server anonymous_key) = [Request POST ''/key/generate'' (Some (create_key_data anonymous_key))]
   \<and> create_key_data anonymous_key = JObj []
   \<and> key_check_mode (anonymous_key\<lparr>key_check_mode := True\<rparr>)
   \<and> run_key key_server (anonymous_key\<lparr>key_check_mode := True\<rparr>) =
        ([], Inr \<lparr>changed = True, resource = JObj [], message = ''Virtual key creata con successo''\<rparr>)
   \<and> state unnamed_team = Present \<and> name unnamed_team = None
   \<and> run_team team_server unnamed_team =
        ([], Inl (Fail_json ''state is present but all of the following are missing: name'' []))"
proof -
  have a: "key_state anonymous_key = Present \<and> \<not> str_truthy (key_id anonymous_key)
       \<and> \<not> str_truthy (key_alias anonymous_key) \<and> \<not> key_check_mode anonymous_key"
    by code_simp
  have b: "create_key_data anonymous_key = JObj []"
    by code_simp
  have c: "state unnamed_team = Present \<and> name unnamed_team = None"
    by code_simp
  have d: "key_state (anonymous_key\<lparr>key_check_mode := True\<rparr>) = Present
       \<and> \<not> str_truthy (key_id (anonymous_key\<lparr>key_check_mode := True\<rparr>))
       \<and> \<not> str_truthy (key_alias (anonymous_key\<lparr>key_check_mode := True\<rparr>))
       \<and> key_check_mode (anonymous_key\<lparr>key_check_mode := True\<rparr>)"
    by code_simp
  from key_without_identity_is_created [where a = anonymous_key and srv = key_server
      and ta = unnamed_team and tsrv = team_server]
    key_without_identity_is_created [where a = "anonymous_key\<lparr>key_check_mode := True\<rparr>" and srv = key_server
      and ta = unnamed_team and tsrv = team_server]
    a b c d
  show ?thesis
    by blast
qed

section \<open>Parameters left out\<close>

lemma unset_parameters_not_compared:
  "str_differs current k None = Inr False"
  "val_differs current k None = Inr False"
  "models_differ current None = Inr False"
  by (simp_all add: str_differs_def val_differs_def models_differ_def str_truthy_def)

lemma map_of_dict_set_other: "k' \<noteq> k \<Longrightarrow> map_of (dict_set kvs k v) k' = map_of kvs k'"
  by (induction kvs) auto

lemma other_member_not_read:
  "k' \<noteq> k \<Longrightarrow> str_differs (JObj (dict_set kvs k v)) k' s = str_differs (JObj kvs) k' s"
  "k' \<noteq> k \<Longrightarrow> val_differs (JObj (dict_set kvs k v)) k' x = val_differs (JObj kvs) k' x"
  "k \<noteq> ''models'' \<Longrightarrow> models_differ (JObj (dict_set kvs k v)) ms = models_differ (JObj kvs) ms"
  by (simp_all add: str_differs_def val_differs_def models_differ_def py_get_def map_of_dict_set_other
      split: option.splits)

lemma unset_metadata_not_compared:
  "team_needs_update (JObj (dict_set kvs ''metadata'' v)) nm None mb ms = team_needs_update (JObj kvs) nm None mb ms"
  "key_needs_update (JObj (dict_set kvs ''metadata'' v)) (p\<lparr>key_metadata := None\<rparr>)
     = key_needs_update (JObj kvs) (p\<lparr>key_metadata := None\<rparr>)"
  by (simp_all add: team_needs_update_def key_needs_update_def other_member_not_read
      unset_parameters_not_compared)

lemma update_team_fields_members:
  "map fst (update_team_fields tid nm md mb ms) =
     [''team_id''] @ (if str_truthy nm then [''team_alias''] else [])
       @ (if md = None then [] else [''metadata''])
       @ (if mb = None then [] else [''max_budget''])
       @ (if ms = None then [] else [''models''])"
  by (cases md; cases mb; cases ms) (simp_all add: update_team_fields_def)

lemma update_key_fields_members:
  "map fst (update_key_fields kid p) =
     [''key''] @ (if str_truthy (key_alias p) then [''key_alias''] else [])
       @ (if str_truthy (key_team_id p) then [''team_id''] else [])
       @ (if key_models p = None then [] else [''models''])
       @ (if key_max_budget p = None then [] else [''max_budget''])
       @ (if str_truthy (budget_duration p) then [''budget_duration''] else [])
       @ (if key_metadata p = None then [] else [''metadata''])
       @ (if str_truthy (expires p) then [''expires''] else [])
       @ (if max_parallel_requests p = None then [] else [''max_parallel_requests''])
       @ (if tpm_limit p = None then [] else [''tpm_limit''])
       @ (if rpm_limit p = None then [] else [''rpm_limit''])"
  unfolding update_key_fields_def map_append
  by (intro arg_cong2 [where f = append]) (simp_all split: option.splits)

text \<open>
  C3. A parameter that is \<^verbatim>\<open>None\<close> is never compared (lemmas
  \<open>unset_parameters_not_compared\<close>, \<open>unset_metadata_not_compared\<close>), but a playbook that
  leaves \<^verbatim>\<open>metadata\<close> out does not reach \<^verbatim>\<open>team_needs_update\<close> with \<^verbatim>\<open>None\<close>: the
  argument specification turns it into \<^verbatim>\<open>{}\<close>. The team \<^verbatim>\<open>team-x\<close> declared with the name
  and the budget the server holds, and no metadata, is found to need an update because the
  server's team has metadata, and the update is sent.
\<close>

theorem unset_metadata_triggers_update:
  "team_module_params team_x_as_is = Inr (team_x_as_is\<lparr>metadata := Some (JObj [])\<rparr>)
   \<and> team_needs_update team_x (Some ''team-x'') None (Some 500) None = Inr False
   \<and> team_needs_update team_x (Some ''team-x'') (Some (JObj [])) (Some 500) None = Inr True
   \<and> run_team team_server team_x_as_is =
       ([Request GET ''/team/list'' None,
         Request POST ''/team/update''
           (Some (JObj [(''team_id'', JStr ''t1''), (''team_alias'', JStr ''team-x''),
                        (''metadata'', JObj []), (''max_budget'', JNum 500)]))],
        Inr \<lparr>changed = True, resource = JObj [(''team_id'', JStr ''t1'')],
             message = ''Team aggiornato con successo''\<rparr>)"
  by code_simp

theorem unset_metadata_triggers_update_witness:
  "team_actions (fst (run_team team_server team_x_as_is)) = [Update]
   \<and> (\<exists>res. snd (run_team team_server team_x_as_is) = Inr res \<and> changed res)"
  using unset_metadata_triggers_update
  by simp

text \<open>
  C5. The body of an update holds the id and the parameters that are set (lemmas
  \<open>update_team_fields_members\<close>, \<open>update_key_fields_members\<close>), but for a playbook that
  leaves \<^verbatim>\<open>metadata\<close> out the parameter is \<^verbatim>\<open>{}\<close>, not \<^verbatim>\<open>None\<close>: the update of the key
  \<^verbatim>\<open>key-456\<close> declared with a new budget only carries \<^verbatim>\<open>metadata: {}\<close> as well, which
  replaces the metadata the server holds.
\<close>

theorem unset_metadata_is_sent:
  "key_module_params key_456_budget = Inr (key_456_budget\<lparr>key_metadata := Some (JObj [])\<rparr>)
   \<and> run_key key_server key_456_budget =
       ([Request GET ''/key/info?key=key-456'' None,
         Request POST ''/key/update''
           (Some (JObj [(''key'', JStr ''key-456''), (''max_budget'', JNum 1000), (''metadata'', JObj [])]))],
        Inr \<lparr>changed = True, resource = JObj [(''key'', JStr ''key-456'')],
             message = ''Virtual key aggiornata con successo''\<rparr>)
   \<and> update_key_fields (JStr ''key-456'') key_456_budget = [(''key'', JStr ''key-456''), (''max_budget'', JNum 1000)]"
  by code_simp

theorem unset_metadata_is_sent_witness:
  "key_actions (fst (run_key key_server key_456_budget)) = [Update]
   \<and> fst (run_key key_server key_456_budget) ! 1 =
       Request POST ''/key/update''
         (Some (JObj [(''key'', JStr ''key-456''), (''max_budget'', JNum 1000), (''metadata'', JObj [])]))"
  using unset_metadata_is_sent
  by simp

end
